theory Spec2Isabelle
  imports Complex_Main "HOL-Library.Word"
begin

section \<open>Data model of the live session controller\<close>

text \<open>
  The controller is the class \<open>LiveClient\<close> of \<open>src/liveClient.ts\<close>. Its private fields
  become the record \<open>client\<close>; every call it makes on a collaborator (the four
  notification callbacks, the console, the audio graph, the transport, the window) is
  appended to the field \<open>emitted\<close>, in program order, so that what a method did can be read
  off the state it returns.

  Times and durations are JavaScript numbers; they are modelled as reals, which is exact
  for the comparisons the scheduler makes and idealises the one addition it performs.
\<close>

datatype ConnectionState = DISCONNECTED | CONNECTING | CONNECTED | ERROR

datatype source_tag = User | AI | System | Error

record LogEntry =
  log_id :: string
  log_timestamp :: nat
  log_source :: source_tag
  log_message :: string
  log_type :: "string option"

record AudioContext =
  sampleRate :: nat
  currentTime :: real

record AudioBuffer =
  duration :: real

text \<open>
  The transport handle is the promise returned by \<open>ai.live.connect\<close>. The model keeps how
  that promise settles: awaiting it, or chaining \<open>then\<close> on it, yields the session or the
  rejection.
\<close>

datatype session_promise = Fulfilled | Rejected string

record media =
  mimeType :: string
  data :: string

text \<open>
  A function call of the remote side. \<open>fc_args\<close> is \<open>None\<close> when the request carries
  no \<open>args\<close> object; reading a property of it then throws a TypeError. A property
  the object does not have reads as \<open>undefined\<close>, here \<open>None\<close>.
\<close>

record function_call =
  fc_id :: string
  fc_name :: string
  fc_args :: "(string \<rightharpoonup> string) option"

text \<open>
  The local variable \<open>result\<close> of \<open>handleToolCall\<close>: one of \<open>{status}\<close>, \<open>{result}\<close>,
  \<open>{time}\<close> and \<open>{error}\<close>.
\<close>

datatype tool_result =
    Status string
  | Result string
  | Time string
  | ErrorMessage string

record function_response =
  resp_id :: string
  resp_name :: string
  resp_result :: tool_result

record server_content =
  inlineData :: "string option"
  interrupted :: bool
  turnComplete :: bool

record tool_call =
  functionCalls :: "function_call list option"

record LiveServerMessage =
  serverContent :: "server_content option"
  toolCall :: "tool_call option"

datatype effect =
    StateChange ConnectionState
  | Log LogEntry
  | Volume real
  | ToolAction string
  | ConsoleError string
  | SourceStart nat real
  | SourceStop nat
  | ProcessorDisconnect
  | InputSourceDisconnect
  | ContextClose AudioContext
  | GetUserMedia
  | LiveConnect
  | SendRealtimeInput media
  | SendToolResponse function_response
  | WindowOpen "string option"
  | ThemeChange "string option"

record client =
  ai :: bool
  inputAudioContext :: "AudioContext option"
  outputAudioContext :: "AudioContext option"
  inputSource :: "nat option"
  processor :: "nat option"
  nextStartTime :: real
  sources :: "nat list"
  currentSession :: "session_promise option"
  emitted :: "effect list"
  fresh_source :: nat

text \<open>
  What the controller does not decide: the helpers of \<open>utils/audio\<close>, which are not among
  the sources, and the calls on the browser and the transport that can throw. A value
  \<open>Some m\<close> or \<open>Inl m\<close> is an exception with message \<open>m\<close>. The texts of the
  engine's own exceptions are its own too: \<open>TypeError_message p\<close> for reading the
  property \<open>p\<close> of \<open>undefined\<close>, \<open>not_iterable_message\<close> for iterating over
  \<open>undefined\<close>.
\<close>

record env =
  base64ToUint8Array :: "string \<Rightarrow> string + 8 word list"
  decodeAudioData :: "8 word list \<Rightarrow> AudioContext \<Rightarrow> string + AudioBuffer"
  arrayBufferToBase64 :: "8 word list \<Rightarrow> string"
  btoa :: "8 word list \<Rightarrow> string"
  stop_throws :: "nat \<Rightarrow> string option"
  window_open_throws :: "string option \<Rightarrow> string option"
  sendRealtimeInput_throws :: "media \<Rightarrow> string option"
  sendToolResponse_throws :: "function_response \<Rightarrow> string option"
  toLocaleString :: "nat \<Rightarrow> string"
  TypeError_message :: "string \<Rightarrow> string"
  not_iterable_message :: string

text \<open>
  What the set-up of \<open>connect\<close> meets: constructors that may throw, the microphone
  request that may be rejected (\<open>Inr\<close> carries the stream), and the promise that
  \<open>ai.live.connect\<close> returns.
\<close>

record connect_env =
  GoogleGenAI_throws :: "string option"
  inputContext_throws :: "string option"
  outputContext_throws :: "string option"
  getUserMedia :: "string + nat"
  live_connect :: session_promise

text \<open>
  A method that can throw returns an \<open>outcome\<close>: the state it reached, and the message of
  the exception when one escaped. \<open>try_catch\<close> is the \<open>try { ... } catch (e) { ... }\<close> of
  the source: the handler continues from the state at the throw.
\<close>

datatype 'a outcome = Returns 'a | Throws string 'a

definition and_then :: "'a outcome \<Rightarrow> ('a \<Rightarrow> 'a outcome) \<Rightarrow> 'a outcome" where
  "and_then r f = (case r of Returns c \<Rightarrow> f c | Throws m c \<Rightarrow> Throws m c)"

definition try_catch :: "'a outcome \<Rightarrow> (string \<Rightarrow> 'a \<Rightarrow> 'a outcome) \<Rightarrow> 'a outcome" where
  "try_catch r h = (case r of Returns c \<Rightarrow> Returns c | Throws m c \<Rightarrow> h m c)"

fun final :: "'a outcome \<Rightarrow> 'a" where
  "final (Returns c) = c"
| "final (Throws m c) = c"

fun returns :: "'a outcome \<Rightarrow> bool" where
  "returns (Returns c) = True"
| "returns (Throws m c) = False"

definition emit :: "effect \<Rightarrow> client \<Rightarrow> client" where
  "emit e c = c\<lparr>emitted := emitted c @ [e]\<rparr>"

text \<open>The constructor: every handle is null, the schedule starts at 0, no source is live.\<close>

definition new_client :: client where
  "new_client =
     \<lparr>ai = False, inputAudioContext = None, outputAudioContext = None, inputSource = None,
      processor = None, nextStartTime = 0, sources = [], currentSession = None,
      emitted = [], fresh_source = 0\<rparr>"

text \<open>\<open>Date.now().toString()\<close>: the decimal digits of the millisecond clock.\<close>

fun toString :: "nat \<Rightarrow> string" where
  "toString n =
     (if n < 10 then [''0123456789'' ! n]
      else toString (n div 10) @ [''0123456789'' ! (n mod 10)])"

declare toString.simps [simp del]

text \<open>
  The entries built in place as \<open>{ id: Date.now().toString(), timestamp: new Date(),
  source, message }\<close>; \<open>now\<close> is the clock reading of the call.
\<close>

definition log_entry :: "nat \<Rightarrow> source_tag \<Rightarrow> string \<Rightarrow> LogEntry" where
  "log_entry now src msg =
     \<lparr>log_id = toString now, log_timestamp = now, log_source = src, log_message = msg,
      log_type = None\<rparr>"

text \<open>\<open>m || d\<close> on strings: the empty string is falsy.\<close>

definition or_default :: "string \<Rightarrow> string \<Rightarrow> string" where
  "or_default m d = (if m = [] then d else m)"

section \<open>Inbound playback scheduler\<close>

text \<open>
  \<open>playAudio\<close>: without an output context nothing happens. Otherwise a new source node is
  created (\<open>fresh_source\<close> gives it an identity), \<open>nextStartTime\<close> is raised to the output
  clock when it lies behind it, the source is started there, \<open>nextStartTime\<close> advances by
  the buffer's duration and the source joins the live set.
\<close>

definition playAudio :: "AudioBuffer \<Rightarrow> client \<Rightarrow> client" where
  "playAudio buffer c =
     (case outputAudioContext c of
        None \<Rightarrow> c
      | Some ctx \<Rightarrow>
          let source = fresh_source c;
              c1 = (if nextStartTime c < currentTime ctx
                    then c\<lparr>nextStartTime := currentTime ctx\<rparr> else c);
              c2 = emit (SourceStart source (nextStartTime c1)) c1;
              c3 = c2\<lparr>nextStartTime := nextStartTime c2 + duration buffer\<rparr>
          in c3\<lparr>sources := sources c3 @ [source], fresh_source := Suc source\<rparr>)"

text \<open>The completion callback \<open>source.onended\<close> installed by \<open>playAudio\<close>.\<close>

definition onended :: "nat \<Rightarrow> client \<Rightarrow> client" where
  "onended source c =
     (let c1 = c\<lparr>sources := removeAll source (sources c)\<rparr>
      in if length (sources c1) = 0 then emit (Volume 0) c1 else c1)"

text \<open>
  \<open>stopAllAudio\<close>: each live source is stopped inside its own \<open>try\<close> with an empty
  \<open>catch\<close>, the set is cleared, \<open>nextStartTime\<close> is set to the output clock when there
  is an output context, and loudness 0 is reported. \<open>SourceStop s\<close> records the call
  \<open>s.stop()\<close>, whether or not it threw.
\<close>

definition source_stop :: "env \<Rightarrow> nat \<Rightarrow> client \<Rightarrow> client outcome" where
  "source_stop env s c =
     (case stop_throws env s of
        None \<Rightarrow> Returns (emit (SourceStop s) c)
      | Some m \<Rightarrow> Throws m (emit (SourceStop s) c))"

fun stop_each :: "env \<Rightarrow> nat list \<Rightarrow> client \<Rightarrow> client outcome" where
  "stop_each env [] c = Returns c"
| "stop_each env (s # ss) c =
     and_then (try_catch (source_stop env s c) (\<lambda>e c'. Returns c')) (stop_each env ss)"

definition stopAllAudio :: "env \<Rightarrow> client \<Rightarrow> client outcome" where
  "stopAllAudio env c =
     and_then (stop_each env (sources c) c) (\<lambda>c1.
       let c2 = c1\<lparr>sources := []\<rparr>;
           c3 = (case outputAudioContext c2 of
                   Some ctx \<Rightarrow> c2\<lparr>nextStartTime := currentTime ctx\<rparr>
                 | None \<Rightarrow> c2)
       in Returns (emit (Volume 0) c3))"

section \<open>Teardown\<close>

definition disconnect :: "env \<Rightarrow> client \<Rightarrow> client outcome" where
  "disconnect env c =
     and_then (stopAllAudio env c) (\<lambda>c1.
       let c2 = (case processor c1 of
                   Some p \<Rightarrow> (emit ProcessorDisconnect c1)\<lparr>processor := None\<rparr>
                 | None \<Rightarrow> c1);
           c3 = (case inputSource c2 of
                   Some s \<Rightarrow> (emit InputSourceDisconnect c2)\<lparr>inputSource := None\<rparr>
                 | None \<Rightarrow> c2);
           c4 = (case inputAudioContext c3 of
                   Some ctx \<Rightarrow> (emit (ContextClose ctx) c3)\<lparr>inputAudioContext := None\<rparr>
                 | None \<Rightarrow> c3);
           c5 = (case outputAudioContext c4 of
                   Some ctx \<Rightarrow> (emit (ContextClose ctx) c4)\<lparr>outputAudioContext := None\<rparr>
                 | None \<Rightarrow> c4)
       in Returns (c5\<lparr>ai := False, currentSession := None\<rparr>))"

section \<open>Tool invocation dispatcher\<close>

text \<open>A value spliced into a template literal: a missing property prints as \<open>undefined\<close>.\<close>

definition js_str :: "string option \<Rightarrow> string" where
  "js_str v = (case v of None \<Rightarrow> ''undefined'' | Some s \<Rightarrow> s)"

text \<open>
  The body of the \<open>try\<close> in \<open>handleToolCall\<close>, on the pair of the local \<open>result\<close> and
  the controller. It throws where \<open>fc.args\<close> is missing and where \<open>window.open\<close> does.
\<close>

definition tool_try :: "env \<Rightarrow> nat \<Rightarrow> function_call \<Rightarrow> tool_result \<times> client \<Rightarrow> (tool_result \<times> client) outcome" where
  "tool_try env now fc rc =
     (let result = fst rc; c = snd rc in
      if fc_name fc = ''openWebsite'' then
        (case fc_args fc of
           None \<Rightarrow> Throws (TypeError_message env ''url'') (result, c)
         | Some args \<Rightarrow>
             let url = args ''url'' in
             (case window_open_throws env url of
                Some m \<Rightarrow> Throws m (result, c)
              | None \<Rightarrow>
                  Returns (Result (''Opened '' @ js_str url),
                           emit (ToolAction (''Opened '' @ js_str url))
                             (emit (WindowOpen url) c))))
      else if fc_name fc = ''setScreenMode'' then
        (case fc_args fc of
           None \<Rightarrow> Throws (TypeError_message env ''mode'') (result, c)
         | Some args \<Rightarrow>
             let mode = args ''mode'' in
             Returns (Result (''Set mode to '' @ js_str mode),
                      emit (ToolAction (js_str mode @ '' mode active''))
                        (emit (ThemeChange mode) c)))
      else if fc_name fc = ''getSystemTime'' then
        (let time = toLocaleString env now in
         Returns (Time time, emit (ToolAction (''Time: '' @ time)) c))
      else Returns (result, c))"

definition tool_log :: "nat \<Rightarrow> function_call \<Rightarrow> LogEntry" where
  "tool_log now fc =
     \<lparr>log_id = fc_id fc, log_timestamp = now, log_source = AI,
      log_message = ''Executing: '' @ fc_name fc, log_type = Some ''tool''\<rparr>"

text \<open>
  One turn of the loop over \<open>toolCall.functionCalls\<close>, up to its last statement: the log
  entry, the \<open>try\<close> with its \<open>catch\<close>, and the response that the last statement is
  about to hand to the transport.
\<close>

definition handle_call :: "env \<Rightarrow> nat \<Rightarrow> function_call \<Rightarrow> client \<Rightarrow> function_response \<times> client" where
  "handle_call env now fc c =
     (let c1 = emit (Log (tool_log now fc)) c;
          rc = final (try_catch (tool_try env now fc (Status ''ok'', c1))
                        (\<lambda>m rc'. Returns (ErrorMessage m, snd rc')))
      in (\<lparr>resp_id = fc_id fc, resp_name = fc_name fc, resp_result = fst rc\<rparr>, snd rc))"

text \<open>
  The last statement of the turn, \<open>this.currentSession?.then(session => ...)\<close>: with a
  handle, the send is queued on that promise and runs later, as a microtask; without one
  nothing is queued.
\<close>

definition then_send :: "function_response \<Rightarrow> client \<Rightarrow> (session_promise \<times> function_response) list" where
  "then_send r c = (case currentSession c of None \<Rightarrow> [] | Some p \<Rightarrow> [(p, r)])"

fun handle_calls :: "env \<Rightarrow> nat \<Rightarrow> function_call list \<Rightarrow> client \<Rightarrow> (session_promise \<times> function_response) list \<times> client" where
  "handle_calls env now [] c = ([], c)"
| "handle_calls env now (fc # fcs) c =
     (let rc = handle_call env now fc c;
          queued = then_send (fst rc) (snd rc);
          rest = handle_calls env now fcs (snd rc)
      in (queued @ fst rest, snd rest))"

text \<open>
  A queued send when it runs: \<open>session.sendToolResponse(...)\<close> on a fulfilled handle;
  the \<open>.catch(() => {})\<close> swallows a rejected handle and a send that throws.
\<close>

definition send_tool_response :: "env \<Rightarrow> session_promise \<times> function_response \<Rightarrow> client \<Rightarrow> client" where
  "send_tool_response env task c =
     (case fst task of
        Rejected m \<Rightarrow> c
      | Fulfilled \<Rightarrow>
          (case sendToolResponse_throws env (snd task) of
             Some m \<Rightarrow> c
           | None \<Rightarrow> emit (SendToolResponse (snd task)) c))"

fun run_microtasks :: "env \<Rightarrow> (session_promise \<times> function_response) list \<Rightarrow> client \<Rightarrow> client" where
  "run_microtasks env [] c = c"
| "run_microtasks env (task # tasks) c = run_microtasks env tasks (send_tool_response env task c)"

text \<open>
  \<open>handleToolCall\<close>. Iterating over a missing \<open>functionCalls\<close> throws before anything
  else happens. Otherwise the loop runs to its end, and the sends it queued run after
  it, in the order of the requests, before any other callback of the controller: the
  state returned is the one they leave.
\<close>

definition handleToolCall :: "env \<Rightarrow> nat \<Rightarrow> tool_call \<Rightarrow> client \<Rightarrow> client outcome" where
  "handleToolCall env now tc c =
     (case functionCalls tc of
        None \<Rightarrow> Throws (not_iterable_message env) c
      | Some fcs \<Rightarrow>
          (let qc = handle_calls env now fcs c
           in Returns (run_microtasks env (fst qc) (snd qc))))"

section \<open>Inbound message handler\<close>

text \<open>The optional chain \<open>message.serverContent?.modelTurn?.parts?.[0]?.inlineData?.data\<close>.\<close>

definition audio_payload :: "LiveServerMessage \<Rightarrow> string option" where
  "audio_payload message =
     (case serverContent message of None \<Rightarrow> None | Some sc \<Rightarrow> inlineData sc)"

definition is_interrupted :: "LiveServerMessage \<Rightarrow> bool" where
  "is_interrupted message =
     (case serverContent message of None \<Rightarrow> False | Some sc \<Rightarrow> interrupted sc)"

definition is_turnComplete :: "LiveServerMessage \<Rightarrow> bool" where
  "is_turnComplete message =
     (case serverContent message of None \<Rightarrow> False | Some sc \<Rightarrow> turnComplete sc)"

text \<open>The body of the \<open>try\<close> around decoding: decode, then schedule.\<close>

definition decode_try :: "env \<Rightarrow> string \<Rightarrow> AudioContext \<Rightarrow> client \<Rightarrow> client outcome" where
  "decode_try env base64Audio ctx c =
     (case base64ToUint8Array env base64Audio of
        Inl m \<Rightarrow> Throws m c
      | Inr bytes \<Rightarrow>
          (case decodeAudioData env bytes ctx of
             Inl m \<Rightarrow> Throws m c
           | Inr audioBuffer \<Rightarrow> Returns (playAudio audioBuffer c)))"

text \<open>
  The four \<open>if\<close> blocks of \<open>handleMessage\<close>, in their order. The call of
  \<open>handleToolCall\<close> is the last statement and is not awaited: an exception of it
  rejects a promise nobody holds and does not reach \<open>handleMessage\<close>.
\<close>

definition audio_block :: "env \<Rightarrow> LiveServerMessage \<Rightarrow> client \<Rightarrow> client outcome" where
  "audio_block env message c =
     (case audio_payload message of
        None \<Rightarrow> Returns c
      | Some base64Audio \<Rightarrow>
          (case outputAudioContext c of
             None \<Rightarrow> Returns c
           | Some ctx \<Rightarrow>
               if base64Audio = [] then Returns c
               else try_catch (decode_try env base64Audio ctx (emit (Volume (1 / 2)) c))
                      (\<lambda>e c'. Returns (emit (ConsoleError ''Audio decode error'') c'))))"

definition interrupted_block :: "env \<Rightarrow> nat \<Rightarrow> LiveServerMessage \<Rightarrow> client \<Rightarrow> client outcome" where
  "interrupted_block env now message c =
     (if is_interrupted message
      then and_then (stopAllAudio env c)
             (\<lambda>c'. Returns (emit (Log (log_entry now System ''Interrupted.'')) c'))
      else Returns c)"

definition turnComplete_block :: "LiveServerMessage \<Rightarrow> client \<Rightarrow> client outcome" where
  "turnComplete_block message c =
     (if is_turnComplete message then Returns (emit (Volume 0) c) else Returns c)"

definition toolCall_block :: "env \<Rightarrow> nat \<Rightarrow> LiveServerMessage \<Rightarrow> client \<Rightarrow> client outcome" where
  "toolCall_block env now message c =
     (case toolCall message of
        None \<Rightarrow> Returns c
      | Some tc \<Rightarrow> Returns (final (handleToolCall env now tc c)))"

definition handleMessage :: "env \<Rightarrow> nat \<Rightarrow> LiveServerMessage \<Rightarrow> client \<Rightarrow> client outcome" where
  "handleMessage env now message c =
     and_then (audio_block env message c) (\<lambda>c1.
     and_then (interrupted_block env now message c1) (\<lambda>c2.
     and_then (turnComplete_block message c2) (\<lambda>c3.
     toolCall_block env now message c3)))"

section \<open>Connection lifecycle\<close>

text \<open>
  \<open>startAudioInput\<close>: without an input context or a transport handle it returns at
  once; otherwise it builds the capture graph, a stream source and a script processor
  of 4096 samples. Of the capture callback it installs, the encoder \<open>createPcmBlob\<close>
  is given below.
\<close>

definition startAudioInput :: "nat \<Rightarrow> client \<Rightarrow> client" where
  "startAudioInput stream c =
     (if inputAudioContext c = None \<or> currentSession c = None then c
      else c\<lparr>inputSource := Some stream, processor := Some 4096\<rparr>)"

text \<open>
  The body of the \<open>try\<close> in \<open>connect\<close>: the client object, the two audio contexts
  (16 kHz in, 24 kHz out, their clocks at 0), the microphone, the transport. Each step
  keeps what the steps before it assigned.
\<close>

definition connect_try :: "connect_env \<Rightarrow> client \<Rightarrow> client outcome" where
  "connect_try su c =
     (case GoogleGenAI_throws su of
        Some m \<Rightarrow> Throws m c
      | None \<Rightarrow>
          let c1 = c\<lparr>ai := True\<rparr> in
          (case inputContext_throws su of
             Some m \<Rightarrow> Throws m c1
           | None \<Rightarrow>
               let c2 = c1\<lparr>inputAudioContext := Some \<lparr>sampleRate = 16000, currentTime = 0\<rparr>\<rparr> in
               (case outputContext_throws su of
                  Some m \<Rightarrow> Throws m c2
                | None \<Rightarrow>
                    let c3 = c2\<lparr>outputAudioContext := Some \<lparr>sampleRate = 24000, currentTime = 0\<rparr>\<rparr>;
                        c4 = emit GetUserMedia c3 in
                    (case getUserMedia su of
                       Inl m \<Rightarrow> Throws m c4
                     | Inr stream \<Rightarrow>
                         Returns ((emit LiveConnect c4)\<lparr>currentSession := Some (live_connect su)\<rparr>)))))"

definition connect :: "env \<Rightarrow> connect_env \<Rightarrow> nat \<Rightarrow> client \<Rightarrow> client outcome" where
  "connect env su now c =
     try_catch (connect_try su (emit (StateChange CONNECTING) c))
       (\<lambda>m c'.
          disconnect env
            (emit (Log (log_entry now Error (or_default m ''Connection failed'')))
               (emit (StateChange ERROR) (emit (ConsoleError ''Connection failed'') c'))))"

text \<open>The callbacks handed to the transport.\<close>

definition onopen :: "nat \<Rightarrow> nat \<Rightarrow> client \<Rightarrow> client" where
  "onopen now stream c =
     emit (Log (log_entry now System ''Connected to Aryan.''))
       (startAudioInput stream (emit (StateChange CONNECTED) c))"

definition onclose :: "env \<Rightarrow> nat \<Rightarrow> client \<Rightarrow> client outcome" where
  "onclose env now c =
     disconnect env
       (emit (Log (log_entry now System ''Connection closed.''))
          (emit (StateChange DISCONNECTED) c))"

definition onerror :: "env \<Rightarrow> nat \<Rightarrow> string \<Rightarrow> client \<Rightarrow> client outcome" where
  "onerror env now err c =
     disconnect env
       (emit (Log (log_entry now Error (or_default err ''Network error'')))
          (emit (StateChange ERROR) (emit (ConsoleError ''Gemini Live Error:'') c)))"

text \<open>
  \<open>sendText\<close>. A string is its sequence of bytes, so \<open>TextEncoder.encode\<close> reads each
  character as a byte.
\<close>

definition TextEncoder_encode :: "string \<Rightarrow> 8 word list" where
  "TextEncoder_encode text = map of_char text"

definition text_media :: "env \<Rightarrow> string \<Rightarrow> media" where
  "text_media env text =
     \<lparr>mimeType = ''text/plain'', data = arrayBufferToBase64 env (TextEncoder_encode text)\<rparr>"

definition sendText_try :: "env \<Rightarrow> nat \<Rightarrow> string \<Rightarrow> session_promise \<Rightarrow> client \<Rightarrow> client outcome" where
  "sendText_try env now text p c =
     (case p of
        Rejected m \<Rightarrow> Throws m c
      | Fulfilled \<Rightarrow>
          let c1 = emit (Log (log_entry now User text)) c in
          (case sendRealtimeInput_throws env (text_media env text) of
             Some m \<Rightarrow> Throws m c1
           | None \<Rightarrow> Returns (emit (SendRealtimeInput (text_media env text)) c1)))"

definition sendText :: "env \<Rightarrow> nat \<Rightarrow> string \<Rightarrow> client \<Rightarrow> client outcome" where
  "sendText env now text c =
     (case currentSession c of
        None \<Rightarrow> Returns c
      | Some p \<Rightarrow>
          try_catch (sendText_try env now text p c)
            (\<lambda>m c'.
               Returns (emit (Log (log_entry now Error (''Failed to send text: '' @ m)))
                          (emit (ConsoleError ''Failed to send text'') c'))))"

section \<open>The presentation layer's view\<close>

text \<open>
  \<open>App.tsx\<close> keeps the session state: \<open>useState(ConnectionState.DISCONNECTED)\<close>, with
  \<open>client.onStateChange = setConnectionState\<close>. The state it shows after a run of the
  controller is the last one notified.
\<close>

fun connectionState :: "ConnectionState \<Rightarrow> effect list \<Rightarrow> ConnectionState" where
  "connectionState s [] = s"
| "connectionState s (StateChange s' # es) = connectionState s' es"
| "connectionState s (e # es) = connectionState s es"

text \<open>
  \<open>toggleConnection\<close> of \<open>App.tsx\<close>, for a client that exists: while Connected or
  Connecting it disconnects and sets the state itself; otherwise it connects.
\<close>

definition toggleConnection :: "env \<Rightarrow> connect_env \<Rightarrow> nat \<Rightarrow> ConnectionState \<Rightarrow> client \<Rightarrow> client outcome" where
  "toggleConnection env su now state c =
     (if state = CONNECTED \<or> state = CONNECTING
      then and_then (disconnect env c) (\<lambda>c'. Returns (emit (StateChange DISCONNECTED) c'))
      else connect env su now c)"

definition log_entries :: "effect list \<Rightarrow> LogEntry list" where
  "log_entries es = concat (map (\<lambda>e. case e of Log l \<Rightarrow> [l] | _ \<Rightarrow> []) es)"

definition state_changes :: "effect list \<Rightarrow> ConnectionState list" where
  "state_changes es = concat (map (\<lambda>e. case e of StateChange s \<Rightarrow> [s] | _ \<Rightarrow> []) es)"

definition tool_responses :: "effect list \<Rightarrow> function_response list" where
  "tool_responses es = concat (map (\<lambda>e. case e of SendToolResponse r \<Rightarrow> [r] | _ \<Rightarrow> []) es)"

definition volumes :: "effect list \<Rightarrow> real list" where
  "volumes es = concat (map (\<lambda>e. case e of Volume v \<Rightarrow> [v] | _ \<Rightarrow> []) es)"

text \<open>What one call emitted: the effects of \<open>c'\<close> past those of \<open>c\<close>.\<close>

definition emitted_since :: "client \<Rightarrow> client \<Rightarrow> effect list" where
  "emitted_since c c' = drop (length (emitted c)) (emitted c')"

section \<open>Runs of the scheduler\<close>

text \<open>
  The output clock belongs to the audio device; it moves between two calls of the
  controller. \<open>clock_reads t\<close> is the environment's step that makes the output context
  read \<open>t\<close>.
\<close>

definition clock_reads :: "real \<Rightarrow> client \<Rightarrow> client" where
  "clock_reads t c =
     (case outputAudioContext c of
        None \<Rightarrow> c
      | Some ctx \<Rightarrow> c\<lparr>outputAudioContext := Some (ctx\<lparr>currentTime := t\<rparr>)\<rparr>)"

text \<open>
  A run of the scheduler without interruption: each payload arrives decoded, with the
  clock reading at its arrival.
\<close>

fun play_all :: "(real \<times> AudioBuffer) list \<Rightarrow> client \<Rightarrow> client" where
  "play_all [] c = c"
| "play_all ((t, buffer) # rest) c = play_all rest (playAudio buffer (clock_reads t c))"

text \<open>The start times passed to \<open>source.start\<close>, in the order of the calls.\<close>

fun start_times :: "effect list \<Rightarrow> real list" where
  "start_times [] = []"
| "start_times (SourceStart s t # es) = t # start_times es"
| "start_times (e # es) = start_times es"

text \<open>
  The schedule in the specification's words: the start is the maximum of the clock and
  the next free time, and the next free time becomes the start plus the duration. The
  list holds, for each payload, the clock at its arrival and its duration.
\<close>

fun spec_schedule :: "real \<Rightarrow> (real \<times> real) list \<Rightarrow> real list" where
  "spec_schedule next_free [] = []"
| "spec_schedule next_free ((clock, dur) # rest) =
     max clock next_free # spec_schedule (max clock next_free + dur) rest"

fun spec_next_free :: "real \<Rightarrow> (real \<times> real) list \<Rightarrow> real" where
  "spec_next_free next_free [] = next_free"
| "spec_next_free next_free ((clock, dur) # rest) =
     spec_next_free (max clock next_free + dur) rest"

definition timing :: "real \<times> AudioBuffer \<Rightarrow> real \<times> real" where
  "timing p = (fst p, duration (snd p))"

section \<open>The 16-bit PCM encoder\<close>

text \<open>
  A sample of a \<open>Float32Array\<close> is a finite number, an infinity or NaN. The finite ones
  are taken as reals: the products below have at most 39 significant bits, so the
  double arithmetic of the source is exact on them.
\<close>

datatype js_number = Finite real | PosInfinity | NegInfinity | NaN

fun Math_min :: "js_number \<Rightarrow> js_number \<Rightarrow> js_number" where
  "Math_min NaN y = NaN"
| "Math_min x NaN = NaN"
| "Math_min NegInfinity y = NegInfinity"
| "Math_min x NegInfinity = NegInfinity"
| "Math_min PosInfinity y = y"
| "Math_min x PosInfinity = x"
| "Math_min (Finite a) (Finite b) = Finite (min a b)"

fun Math_max :: "js_number \<Rightarrow> js_number \<Rightarrow> js_number" where
  "Math_max NaN y = NaN"
| "Math_max x NaN = NaN"
| "Math_max PosInfinity y = PosInfinity"
| "Math_max x PosInfinity = PosInfinity"
| "Math_max NegInfinity y = y"
| "Math_max x NegInfinity = x"
| "Math_max (Finite a) (Finite b) = Finite (max a b)"

text \<open>\<open>s < 0\<close> and \<open>s * k\<close> for a positive constant \<open>k\<close>.\<close>

fun negative :: "js_number \<Rightarrow> bool" where
  "negative (Finite a) = (a < 0)"
| "negative NegInfinity = True"
| "negative PosInfinity = False"
| "negative NaN = False"

fun scaled :: "js_number \<Rightarrow> real \<Rightarrow> js_number" where
  "scaled (Finite a) k = Finite (a * k)"
| "scaled x k = x"

text \<open>
  Storing into an \<open>Int16Array\<close>: NaN and the infinities become 0, a finite number is
  truncated towards zero and wrapped to 16 bits.
\<close>

definition truncate :: "real \<Rightarrow> int" where
  "truncate x = (if x < 0 then \<lceil>x\<rceil> else \<lfloor>x\<rfloor>)"

fun ToInt16 :: "js_number \<Rightarrow> 16 word" where
  "ToInt16 (Finite a) = word_of_int (truncate a)"
| "ToInt16 x = 0"

definition clamp :: "js_number \<Rightarrow> js_number" where
  "clamp x = Math_max (Finite (- 1)) (Math_min (Finite 1) x)"

text \<open>One turn of the first loop of \<open>createPcmBlob\<close>.\<close>

definition encode_sample :: "js_number \<Rightarrow> 16 word" where
  "encode_sample x =
     (let s = clamp x in ToInt16 (if negative s then scaled s 32768 else scaled s 32767))"

definition encode_int16 :: "js_number list \<Rightarrow> 16 word list" where
  "encode_int16 samples = map encode_sample samples"

text \<open>The byte view \<open>new Uint8Array(int16.buffer)\<close>, least significant byte first.\<close>

definition int16_bytes :: "16 word \<Rightarrow> 8 word list" where
  "int16_bytes w = [ucast w, ucast (drop_bit 8 w)]"

definition createPcmBlob :: "env \<Rightarrow> js_number list \<Rightarrow> nat \<Rightarrow> media" where
  "createPcmBlob env samples rate =
     \<lparr>mimeType = ''audio/pcm;rate='' @ toString rate,
      data = btoa env (concat (map int16_bytes (encode_int16 samples)))\<rparr>"

text \<open>
  Modelled from the spec: the decoder of inbound 16-bit audio (\<open>decodeAudioData\<close> of
  \<open>utils/audio\<close>) is not among the sources. The spec names it only as the inverse, on a
  silent block, of the encoder; it is taken as linear PCM: two bytes, least significant
  first, give a signed 16-bit value \<open>v\<close>, and the sample is \<open>v / 32768\<close>.
\<close>

fun decode_int16 :: "8 word list \<Rightarrow> 16 word list" where
  "decode_int16 (lo # hi # rest) = word_cat hi lo # decode_int16 rest"
| "decode_int16 rest = []"

text \<open>Modelled from the spec: one decoded sample, the signed value over 32768.\<close>

definition decode_sample :: "16 word \<Rightarrow> real" where
  "decode_sample v = real_of_int (sint v) / 32768"

text \<open>Modelled from the spec: the decoder on a block of bytes.\<close>

definition decode_samples :: "8 word list \<Rightarrow> real list" where
  "decode_samples bytes = map decode_sample (decode_int16 bytes)"

section \<open>Notions used to state the properties\<close>

text \<open>
  \<open>extends c c'\<close>: the state \<open>c'\<close> is \<open>c\<close> with more effects emitted, and nothing else
  changed.
\<close>

definition extends :: "client \<Rightarrow> client \<Rightarrow> bool" where
  "extends c c' \<longleftrightarrow>
     c'\<lparr>emitted := emitted c\<rparr> = c \<and> take (length (emitted c)) (emitted c') = emitted c"

text \<open>
  The result that \<open>handleToolCall\<close> packages for a request: what the \<open>try\<close> leaves in
  \<open>result\<close>, or the message of the exception it threw. It does not depend on the
  controller, so it is read off a run on \<open>new_client\<close>.
\<close>

definition call_result :: "env \<Rightarrow> nat \<Rightarrow> function_call \<Rightarrow> tool_result" where
  "call_result env now fc =
     fst (final (try_catch (tool_try env now fc (Status ''ok'', new_client))
                   (\<lambda>m rc'. Returns (ErrorMessage m, snd rc'))))"

text \<open>
  What the handler of a request does besides computing the result: the effects of the
  \<open>try\<close>, read off the same run.
\<close>

definition handler_effects :: "env \<Rightarrow> nat \<Rightarrow> function_call \<Rightarrow> effect list" where
  "handler_effects env now fc =
     emitted (snd (final (try_catch (tool_try env now fc (Status ''ok'', new_client))
                            (\<lambda>m rc'. Returns (ErrorMessage m, snd rc')))))"

text \<open>The response correlated with a request: its id, its name, its result.\<close>

definition response_to :: "env \<Rightarrow> nat \<Rightarrow> function_call \<Rightarrow> function_response" where
  "response_to env now fc =
     \<lparr>resp_id = fc_id fc, resp_name = fc_name fc, resp_result = call_result env now fc\<rparr>"

text \<open>What one turn of the loop emits: the tool log entry, then what the handler does.\<close>

definition call_effects :: "env \<Rightarrow> nat \<Rightarrow> function_call \<Rightarrow> effect list" where
  "call_effects env now fc = Log (tool_log now fc) # handler_effects env now fc"

text \<open>
  The responses that reach the transport, of those queued: all whose send does not
  throw when the handle is fulfilled, none when it is rejected or absent.
\<close>

definition delivered :: "env \<Rightarrow> session_promise option \<Rightarrow> function_response list \<Rightarrow> function_response list" where
  "delivered env handle rs =
     (case handle of
        Some Fulfilled \<Rightarrow> filter (\<lambda>r. sendToolResponse_throws env r = None) rs
      | _ \<Rightarrow> [])"

text \<open>
  The encoding in the specification's words, on a finite sample: clamp to \<open>[-1, 1]\<close>,
  then scale a negative value by 32768 and any other by 32767.
\<close>

definition scaled_clamp :: "real \<Rightarrow> real" where
  "scaled_clamp a =
     (let s = max (- 1) (min 1 a) in if s < 0 then s * 32768 else s * 32767)"

text \<open>
  The 16-bit value of a sample in the specification's words: the scaled clamp of a
  finite sample, truncated towards zero; the infinities clamp to the two ends. A NaN,
  on which the specification is silent, is taken as 0.
\<close>

fun spec_encode :: "js_number \<Rightarrow> int" where
  "spec_encode (Finite a) = truncate (scaled_clamp a)"
| "spec_encode PosInfinity = 32767"
| "spec_encode NegInfinity = - 32768"
| "spec_encode NaN = 0"

text \<open>What \<open>disconnect\<close> emits for the handles that are not null, in its order.\<close>

definition released :: "client \<Rightarrow> effect list" where
  "released c =
     (case processor c of Some p \<Rightarrow> [ProcessorDisconnect] | None \<Rightarrow> []) @
     (case inputSource c of Some s \<Rightarrow> [InputSourceDisconnect] | None \<Rightarrow> []) @
     (case inputAudioContext c of Some ctx \<Rightarrow> [ContextClose ctx] | None \<Rightarrow> []) @
     (case outputAudioContext c of Some ctx \<Rightarrow> [ContextClose ctx] | None \<Rightarrow> [])"

text \<open>
  \<open>adds P c c'\<close>: the state \<open>c'\<close> has the effects of \<open>c\<close> and, after them, only effects
  that satisfy \<open>P\<close>.
\<close>

definition adds :: "(effect \<Rightarrow> bool) \<Rightarrow> client \<Rightarrow> client \<Rightarrow> bool" where
  "adds P c c' \<longleftrightarrow>
     take (length (emitted c)) (emitted c') = emitted c \<and> list_all P (emitted_since c c')"

text \<open>Effects that are neither a state change nor an error entry of the log.\<close>

fun quiet :: "effect \<Rightarrow> bool" where
  "quiet (Log l) = (log_source l \<noteq> Error)"
| "quiet (StateChange s) = False"
| "quiet e = True"

text \<open>Effects that report no loudness other than 0.5 and 0.\<close>

fun fixed_volume :: "effect \<Rightarrow> bool" where
  "fixed_volume (Volume v) = (v = 1 / 2 \<or> v = 0)"
| "fixed_volume e = True"

text \<open>The \<open>try\<close> around decoding throws before \<open>playAudio\<close> is reached.\<close>

definition decode_fails :: "env \<Rightarrow> string \<Rightarrow> AudioContext \<Rightarrow> bool" where
  "decode_fails env d ctx =
     (case base64ToUint8Array env d of
        Inl m \<Rightarrow> True
      | Inr bytes \<Rightarrow> (case decodeAudioData env bytes ctx of Inl m \<Rightarrow> True | Inr b \<Rightarrow> False))"

section \<open>Concrete sessions and inputs\<close>

text \<open>A controller with an output context, and three payloads with their arrival times.\<close>

definition example_context :: AudioContext where
  "example_context = \<lparr>sampleRate = 24000, currentTime = 0\<rparr>"

definition example_client :: client where
  "example_client = new_client\<lparr>outputAudioContext := Some example_context\<rparr>"

definition example_plays :: "(real \<times> AudioBuffer) list" where
  "example_plays = [(0, \<lparr>duration = 1\<rparr>), (1 / 2, \<lparr>duration = 2\<rparr>), (5, \<lparr>duration = 1\<rparr>)]"

text \<open>
  An environment in which stopping source 0 throws and the payload \<open>%\<close> does not
  decode, a set-up that succeeds, the controller after \<open>connect\<close> and \<open>onopen\<close>, and
  the same controller after \<open>disconnect\<close>.
\<close>

definition example_env :: env where
  "example_env =
     \<lparr>base64ToUint8Array = (\<lambda>s. if s = ''%'' then Inl ''InvalidCharacterError'' else Inr (map of_char s)),
      decodeAudioData = (\<lambda>bytes ctx. Inr \<lparr>duration = 1\<rparr>),
      arrayBufferToBase64 = (\<lambda>bytes. map (\<lambda>b. char_of (unat b)) bytes),
      btoa = (\<lambda>bytes. map (\<lambda>b. char_of (unat b)) bytes),
      stop_throws = (\<lambda>s. if s = 0 then Some ''InvalidStateError'' else None),
      window_open_throws = (\<lambda>url. None),
      sendRealtimeInput_throws = (\<lambda>m. None),
      sendToolResponse_throws = (\<lambda>r. None),
      toLocaleString = toString,
      TypeError_message = (\<lambda>p. ''Cannot read properties of undefined (reading '' @ p @ '')''),
      not_iterable_message = ''undefined is not iterable''\<rparr>"

definition example_setup :: connect_env where
  "example_setup =
     \<lparr>GoogleGenAI_throws = None, inputContext_throws = None, outputContext_throws = None,
      getUserMedia = Inr 7, live_connect = Fulfilled\<rparr>"

definition example_connected :: client where
  "example_connected = onopen 1000 7 (final (connect example_env example_setup 1000 new_client))"

definition example_disconnected :: client where
  "example_disconnected = final (disconnect example_env example_connected)"

text \<open>
  A controller with two live sources at output clock 3, and a message that carries the
  interrupted flag only.
\<close>

definition example_playing :: client where
  "example_playing =
     new_client\<lparr>outputAudioContext := Some \<lparr>sampleRate = 24000, currentTime = 3\<rparr>,
       nextStartTime := 7, sources := [0, 1], fresh_source := 2\<rparr>"

definition interrupt_message :: LiveServerMessage where
  "interrupt_message =
     \<lparr>serverContent = Some \<lparr>inlineData = None, interrupted = True, turnComplete = False\<rparr>,
      toolCall = None\<rparr>"

text \<open>
  Tool calls: one that opens a site; then the clock, one whose arguments are missing,
  one with an unknown name, and the theme.
\<close>

definition example_call :: function_call where
  "example_call =
     \<lparr>fc_id = ''call-0'', fc_name = ''openWebsite'',
      fc_args = Some [''url'' \<mapsto> ''https://example.org'']\<rparr>"

definition example_tool_call :: tool_call where
  "example_tool_call = \<lparr>functionCalls = Some [example_call]\<rparr>"

definition example_calls :: "function_call list" where
  "example_calls =
     [\<lparr>fc_id = ''call-1'', fc_name = ''getSystemTime'', fc_args = None\<rparr>,
      \<lparr>fc_id = ''call-2'', fc_name = ''openWebsite'', fc_args = None\<rparr>,
      \<lparr>fc_id = ''call-3'', fc_name = ''reboot'', fc_args = None\<rparr>,
      \<lparr>fc_id = ''call-4'', fc_name = ''setScreenMode'', fc_args = Some [''mode'' \<mapsto> ''dark'']\<rparr>]"

text \<open>Samples in range, out of range and not finite.\<close>

definition example_samples :: "js_number list" where
  "example_samples = [Finite (1 / 2), Finite (- 2), NaN, PosInfinity]"

text \<open>A set-up in which the microphone is refused, and the controller after it.\<close>

definition denied_setup :: connect_env where
  "denied_setup = example_setup\<lparr>getUserMedia := Inl ''Permission denied''\<rparr>"

definition example_failed :: client where
  "example_failed = final (connect example_env denied_setup 1000 new_client)"

text \<open>A message whose payload does not decode, and one whose payload does.\<close>

definition bad_audio_message :: LiveServerMessage where
  "bad_audio_message =
     \<lparr>serverContent = Some \<lparr>inlineData = Some ''%'', interrupted = False, turnComplete = False\<rparr>,
      toolCall = None\<rparr>"

definition audio_message :: LiveServerMessage where
  "audio_message =
     \<lparr>serverContent = Some \<lparr>inlineData = Some ''AAAA'', interrupted = False, turnComplete = False\<rparr>,
      toolCall = None\<rparr>"

section \<open>Lemmas on the scheduler\<close>

lemma start_times_append: "start_times (xs @ ys) = start_times xs @ start_times ys"
  by (induction xs rule: start_times.induct) simp_all

lemma emitted_since_append:
  "emitted c' = emitted c @ es \<Longrightarrow> emitted_since c c' = es"
  by (simp add: emitted_since_def)

lemma clock_reads_fields:
  "emitted (clock_reads t c) = emitted c"
  "nextStartTime (clock_reads t c) = nextStartTime c"
  "sources (clock_reads t c) = sources c"
  "fresh_source (clock_reads t c) = fresh_source c"
  "outputAudioContext (clock_reads t c) =
     map_option (\<lambda>ctx. ctx\<lparr>currentTime := t\<rparr>) (outputAudioContext c)"
  by (simp_all add: clock_reads_def split: option.splits)

lemma playAudio_step:
  assumes "outputAudioContext c = Some ctx"
  shows "emitted (playAudio buffer c) =
           emitted c @ [SourceStart (fresh_source c) (max (currentTime ctx) (nextStartTime c))]"
    and "nextStartTime (playAudio buffer c) =
           max (currentTime ctx) (nextStartTime c) + duration buffer"
    and "outputAudioContext (playAudio buffer c) = Some ctx"
    and "sources (playAudio buffer c) = sources c @ [fresh_source c]"
  using assms by (simp_all add: playAudio_def emit_def Let_def max_def)

lemma play_all_schedule:
  "outputAudioContext c = Some ctx \<Longrightarrow>
     (\<exists>es. emitted (play_all plays c) = emitted c @ es \<and>
           start_times es = spec_schedule (nextStartTime c) (map timing plays)) \<and>
     nextStartTime (play_all plays c) = spec_next_free (nextStartTime c) (map timing plays) \<and>
     (\<exists>ctx'. outputAudioContext (play_all plays c) = Some ctx')"
proof (induction plays arbitrary: c ctx)
  case Nil
  then show ?case by simp
next
  case (Cons p plays)
  obtain t buffer where p: "p = (t, buffer)" by (cases p)
  let ?c0 = "clock_reads t c"
  let ?c1 = "playAudio buffer ?c0"
  have ctx0: "outputAudioContext ?c0 = Some (ctx\<lparr>currentTime := t\<rparr>)"
    using Cons.prems by (simp add: clock_reads_fields)
  note step = playAudio_step [OF ctx0, of buffer]
  have e1: "emitted ?c1 = emitted c @ [SourceStart (fresh_source ?c0) (max t (nextStartTime c))]"
    using step(1) by (simp add: clock_reads_fields)
  have n1: "nextStartTime ?c1 = max t (nextStartTime c) + duration buffer"
    using step(2) by (simp add: clock_reads_fields)
  from Cons.IH [OF step(3)]
  obtain es where es: "emitted (play_all plays ?c1) = emitted ?c1 @ es"
      "start_times es = spec_schedule (nextStartTime ?c1) (map timing plays)"
    and nf: "nextStartTime (play_all plays ?c1) = spec_next_free (nextStartTime ?c1) (map timing plays)"
    and cx: "\<exists>ctx'. outputAudioContext (play_all plays ?c1) = Some ctx'"
    by blast
  have "emitted (play_all (p # plays) c) =
          emitted c @ (SourceStart (fresh_source ?c0) (max t (nextStartTime c)) # es)"
    using es(1) e1 by (simp add: p)
  moreover have "start_times (SourceStart (fresh_source ?c0) (max t (nextStartTime c)) # es) =
          spec_schedule (nextStartTime c) (map timing (p # plays))"
    using es(2) n1 by (simp add: p timing_def)
  moreover have "nextStartTime (play_all (p # plays) c) =
          spec_next_free (nextStartTime c) (map timing (p # plays))"
    using nf n1 by (simp add: p timing_def)
  moreover have "\<exists>ctx'. outputAudioContext (play_all (p # plays) c) = Some ctx'"
    using cx by (simp add: p)
  ultimately show ?case by blast
qed

lemma play_all_start_times:
  assumes "outputAudioContext c = Some ctx"
  shows "start_times (emitted_since c (play_all plays c)) =
           spec_schedule (nextStartTime c) (map timing plays)"
proof -
  from play_all_schedule [OF assms, of plays]
  obtain es where "emitted (play_all plays c) = emitted c @ es"
    and "start_times es = spec_schedule (nextStartTime c) (map timing plays)"
    by blast
  then show ?thesis by (simp add: emitted_since_def)
qed

lemma spec_schedule_length: "length (spec_schedule n xs) = length xs"
  by (induction n xs rule: spec_schedule.induct) simp_all

lemma spec_schedule_lower:
  "x \<in> set (spec_schedule n xs) \<Longrightarrow> \<forall>p \<in> set xs. 0 \<le> snd p \<Longrightarrow> n \<le> x"
proof (induction n xs arbitrary: x rule: spec_schedule.induct)
  case (1 n)
  then show ?case by simp
next
  case (2 n clock dur rest)
  from "2.prems"(1)
  consider "x = max clock n" | "x \<in> set (spec_schedule (max clock n + dur) rest)"
    by auto
  then show ?case
  proof cases
    case 1
    then show ?thesis by simp
  next
    case 2
    have "max clock n + dur \<le> x"
      using "2.IH" [OF 2] "2.prems"(2) by simp
    moreover have "0 \<le> dur" using "2.prems"(2) by simp
    ultimately show ?thesis by linarith
  qed
qed

lemma spec_schedule_no_overlap:
  "Suc i < length xs \<Longrightarrow>
     spec_schedule n xs ! i + snd (xs ! i) \<le> spec_schedule n xs ! Suc i"
proof (induction n xs arbitrary: i rule: spec_schedule.induct)
  case (1 n)
  then show ?case by simp
next
  case (2 n clock dur rest)
  show ?case
  proof (cases i)
    case 0
    from "2.prems" 0 obtain q rest' where r: "rest = q # rest'" by (cases rest) auto
    obtain a b where q: "q = (a, b)" by (cases q)
    show ?thesis unfolding 0 r q by simp
  next
    case (Suc j)
    have "Suc j < length rest" using "2.prems" Suc by simp
    from "2.IH" [OF this] show ?thesis unfolding Suc by simp
  qed
qed

lemma spec_schedule_sorted:
  "\<forall>p \<in> set xs. 0 \<le> snd p \<Longrightarrow> sorted (spec_schedule n xs)"
proof (induction n xs rule: spec_schedule.induct)
  case (1 n)
  then show ?case by simp
next
  case (2 n clock dur rest)
  have d: "0 \<le> dur" and r: "\<forall>p \<in> set rest. 0 \<le> snd p"
    using "2.prems" by simp_all
  have "\<forall>x \<in> set (spec_schedule (max clock n + dur) rest). max clock n \<le> x"
  proof
    fix x assume "x \<in> set (spec_schedule (max clock n + dur) rest)"
    from spec_schedule_lower [OF this r] have "max clock n + dur \<le> x" .
    with d show "max clock n \<le> x" by linarith
  qed
  moreover have "sorted (spec_schedule (max clock n + dur) rest)"
    using "2.IH" r by blast
  ultimately show ?case by (simp only: spec_schedule.simps sorted_simps)
qed

lemma timing_nonneg:
  "\<forall>p \<in> set plays. 0 \<le> duration (snd p) \<Longrightarrow> \<forall>q \<in> set (map timing plays). 0 \<le> snd q"
  by (simp add: timing_def)

section \<open>C1: gapless scheduling\<close>

text \<open>
  Claim C1. For every sequence of decoded payloads scheduled without an interruption,
  with an output context present and no negative duration, \<open>playAudio\<close> starts each
  buffer at the maximum of the output clock and \<open>nextStartTime\<close> and then advances
  \<open>nextStartTime\<close> by the buffer's duration: the start times are the specification's
  schedule. They are non-decreasing, and each is at least the previous start plus the
  previous duration.
\<close>

theorem playAudio_schedule:
  assumes "outputAudioContext c = Some ctx"
    and "\<forall>p \<in> set plays. 0 \<le> duration (snd p)"
  shows "start_times (emitted_since c (play_all plays c)) =
           spec_schedule (nextStartTime c) (map timing plays) \<and>
         nextStartTime (play_all plays c) = spec_next_free (nextStartTime c) (map timing plays) \<and>
         length (start_times (emitted_since c (play_all plays c))) = length plays \<and>
         sorted (start_times (emitted_since c (play_all plays c))) \<and>
         (\<forall>i. Suc i < length plays \<longrightarrow>
            start_times (emitted_since c (play_all plays c)) ! i + duration (snd (plays ! i))
              \<le> start_times (emitted_since c (play_all plays c)) ! Suc i)"
proof -
  let ?starts = "start_times (emitted_since c (play_all plays c))"
  have eq: "?starts = spec_schedule (nextStartTime c) (map timing plays)"
    by (rule play_all_start_times [OF assms(1)])
  have nf: "nextStartTime (play_all plays c) = spec_next_free (nextStartTime c) (map timing plays)"
    using play_all_schedule [OF assms(1), of plays] by blast
  have len: "length ?starts = length plays"
    by (simp add: eq spec_schedule_length)
  have srt: "sorted ?starts"
    unfolding eq by (rule spec_schedule_sorted [OF timing_nonneg [OF assms(2)]])
  have gap: "\<forall>i. Suc i < length plays \<longrightarrow>
            ?starts ! i + duration (snd (plays ! i)) \<le> ?starts ! Suc i"
  proof (intro allI impI)
    fix i assume i: "Suc i < length plays"
    then have "Suc i < length (map timing plays)" by simp
    from spec_schedule_no_overlap [OF this, of "nextStartTime c"]
    show "?starts ! i + duration (snd (plays ! i)) \<le> ?starts ! Suc i"
      using i by (simp add: eq timing_def)
  qed
  from eq nf len srt gap show ?thesis by blast
qed

theorem playAudio_schedule_witness:
  "outputAudioContext example_client = Some example_context \<and>
   list_all (\<lambda>p. 0 \<le> duration (snd p)) example_plays \<and>
   start_times (emitted_since example_client (play_all example_plays example_client)) = [0, 1, 5] \<and>
   nextStartTime (play_all example_plays example_client) = 6"
proof -
  have h1: "outputAudioContext example_client = Some example_context"
    by (simp add: example_client_def)
  have h2: "\<forall>p \<in> set example_plays. 0 \<le> duration (snd p)"
    by (simp add: example_plays_def)
  have n: "nextStartTime example_client = 0"
    by (simp add: example_client_def new_client_def)
  from playAudio_schedule [OF h1 h2]
  have "start_times (emitted_since example_client (play_all example_plays example_client)) =
          spec_schedule 0 (map timing example_plays)"
    and "nextStartTime (play_all example_plays example_client) =
          spec_next_free 0 (map timing example_plays)"
    by (simp_all add: n)
  then show ?thesis
    using h1 h2 by (simp add: example_plays_def timing_def list_all_iff)
qed

section \<open>Lemmas on the tool dispatcher\<close>

lemma tool_try_eq:
  "final (try_catch (tool_try env now fc (Status ''ok'', c))
            (\<lambda>m rc'. Returns (ErrorMessage m, snd rc'))) =
     (call_result env now fc, c\<lparr>emitted := emitted c @ handler_effects env now fc\<rparr>)"
  by (simp add: call_result_def handler_effects_def tool_try_def try_catch_def Let_def emit_def
      new_client_def split: option.splits)

lemma handle_call_eq:
  "handle_call env now fc c =
     (response_to env now fc, c\<lparr>emitted := emitted c @ call_effects env now fc\<rparr>)"
proof -
  let ?c1 = "emit (Log (tool_log now fc)) c"
  have "final (try_catch (tool_try env now fc (Status ''ok'', ?c1))
            (\<lambda>m rc'. Returns (ErrorMessage m, snd rc'))) =
     (call_result env now fc, ?c1\<lparr>emitted := emitted ?c1 @ handler_effects env now fc\<rparr>)"
    by (rule tool_try_eq)
  then show ?thesis
    by (simp add: handle_call_def Let_def response_to_def call_effects_def emit_def)
qed

lemma handle_calls_eq:
  "handle_calls env now fcs c =
     ((case currentSession c of
         None \<Rightarrow> []
       | Some p \<Rightarrow> map (Pair p) (map (response_to env now) fcs)),
      c\<lparr>emitted := emitted c @ concat (map (call_effects env now) fcs)\<rparr>)"
proof (induction fcs arbitrary: c)
  case Nil
  show ?case by (simp split: option.splits)
next
  case (Cons fc fcs)
  show ?case
    by (simp add: handle_call_eq Cons.IH then_send_def Let_def split: option.splits)
qed

lemma run_microtasks_fulfilled:
  "run_microtasks env (map (Pair Fulfilled) rs) c =
     c\<lparr>emitted := emitted c @
        map SendToolResponse (filter (\<lambda>r. sendToolResponse_throws env r = None) rs)\<rparr>"
proof (induction rs arbitrary: c)
  case Nil
  show ?case by simp
next
  case (Cons r rs)
  show ?case
    by (cases "sendToolResponse_throws env r")
      (simp_all add: Cons.IH send_tool_response_def emit_def)
qed

lemma run_microtasks_rejected:
  "run_microtasks env (map (Pair (Rejected m)) rs) c = c"
  by (induction rs arbitrary: c) (simp_all add: send_tool_response_def)

lemma run_microtasks_eq:
  "run_microtasks env (map (Pair p) rs) c =
     c\<lparr>emitted := emitted c @ map SendToolResponse (delivered env (Some p) rs)\<rparr>"
  by (cases p) (simp_all add: run_microtasks_fulfilled run_microtasks_rejected delivered_def)

lemma handleToolCall_eq:
  assumes "functionCalls tc = Some fcs"
  shows "handleToolCall env now tc c =
     Returns (c\<lparr>emitted := emitted c @ concat (map (call_effects env now) fcs) @
        map SendToolResponse
          (delivered env (currentSession c) (map (response_to env now) fcs))\<rparr>)"
proof (cases "currentSession c")
  case None
  then show ?thesis
    using assms by (simp add: handleToolCall_def handle_calls_eq Let_def delivered_def)
next
  case (Some p)
  have q: "handle_calls env now fcs c =
      (map (Pair p) (map (response_to env now) fcs),
       c\<lparr>emitted := emitted c @ concat (map (call_effects env now) fcs)\<rparr>)"
    by (simp only: handle_calls_eq Some option.case)
  show ?thesis
    by (simp only: handleToolCall_def assms option.case q Let_def fst_conv snd_conv
        run_microtasks_eq Some) simp
qed

lemma handler_effects_cases:
  "fc_name fc = ''openWebsite'' \<Longrightarrow> fc_args fc = Some args \<Longrightarrow>
     window_open_throws env (args ''url'') = None \<Longrightarrow>
     handler_effects env now fc =
       [WindowOpen (args ''url''), ToolAction (''Opened '' @ js_str (args ''url''))] \<and>
     call_result env now fc = Result (''Opened '' @ js_str (args ''url''))"
  "fc_name fc = ''setScreenMode'' \<Longrightarrow> fc_args fc = Some args \<Longrightarrow>
     handler_effects env now fc =
       [ThemeChange (args ''mode''), ToolAction (js_str (args ''mode'') @ '' mode active'')] \<and>
     call_result env now fc = Result (''Set mode to '' @ js_str (args ''mode''))"
  "fc_name fc = ''getSystemTime'' \<Longrightarrow>
     handler_effects env now fc = [ToolAction (''Time: '' @ toLocaleString env now)] \<and>
     call_result env now fc = Time (toLocaleString env now)"
  "fc_name fc \<noteq> ''openWebsite'' \<Longrightarrow> fc_name fc \<noteq> ''setScreenMode'' \<Longrightarrow>
     fc_name fc \<noteq> ''getSystemTime'' \<Longrightarrow>
     handler_effects env now fc = [] \<and> call_result env now fc = Status ''ok''"
  by (simp_all add: handler_effects_def call_result_def tool_try_def try_catch_def Let_def
      emit_def new_client_def)

lemma tool_try_throws:
  assumes "tool_try env now fc (Status ''ok'', c) = Throws m rc"
  shows "handler_effects env now fc = [] \<and> call_result env now fc = ErrorMessage m"
  using assms
  by (auto simp add: handler_effects_def call_result_def tool_try_def try_catch_def Let_def
      emit_def new_client_def split: if_splits option.splits)

lemma handler_effects_all:
  assumes "\<And>a. P (ToolAction a)" and "\<And>u. P (WindowOpen u)" and "\<And>m. P (ThemeChange m)"
  shows "list_all P (handler_effects env now fc)"
  by (simp add: handler_effects_def tool_try_def try_catch_def Let_def emit_def new_client_def
      assms split: option.splits)

lemma tool_responses_append:
  "tool_responses (xs @ ys) = tool_responses xs @ tool_responses ys"
  by (simp add: tool_responses_def)

lemma tool_responses_sends: "tool_responses (map SendToolResponse rs) = rs"
  by (induction rs) (simp_all add: tool_responses_def)

lemma tool_responses_call_effects: "tool_responses (call_effects env now fc) = []"
proof -
  have "list_all (\<lambda>e. tool_responses [e] = []) (handler_effects env now fc)"
    by (rule handler_effects_all) (simp_all add: tool_responses_def)
  then have "tool_responses (handler_effects env now fc) = []"
    by (induction "handler_effects env now fc" arbitrary: fc)
      (simp_all add: tool_responses_def list_all_iff)
  then show ?thesis by (simp add: call_effects_def tool_responses_def)
qed

lemma tool_responses_work: "tool_responses (concat (map (call_effects env now) fcs)) = []"
  by (induction fcs) (simp_all add: tool_responses_append tool_responses_call_effects,
      simp add: tool_responses_def)

section \<open>What a call leaves unchanged\<close>

lemma emit_fields:
  "emitted (emit e c) = emitted c @ [e]"
  "sources (emit e c) = sources c"
  "nextStartTime (emit e c) = nextStartTime c"
  "outputAudioContext (emit e c) = outputAudioContext c"
  "inputAudioContext (emit e c) = inputAudioContext c"
  "currentSession (emit e c) = currentSession c"
  "processor (emit e c) = processor c"
  "inputSource (emit e c) = inputSource c"
  "ai (emit e c) = ai c"
  "fresh_source (emit e c) = fresh_source c"
  by (simp_all add: emit_def)

lemma stop_each_eq:
  "stop_each env ss c = Returns (c\<lparr>emitted := emitted c @ map SourceStop ss\<rparr>)"
proof (induction ss arbitrary: c)
  case Nil
  then show ?case by simp
next
  case (Cons s ss)
  have "try_catch (source_stop env s c) (\<lambda>e c'. Returns c') = Returns (emit (SourceStop s) c)"
    by (simp add: source_stop_def try_catch_def split: option.splits)
  then show ?case
    by (simp add: and_then_def Cons.IH emit_def)
qed

lemma stopAllAudio_eq:
  "stopAllAudio env c =
     Returns (c\<lparr>sources := [],
               nextStartTime := (case outputAudioContext c of
                                   Some ctx \<Rightarrow> currentTime ctx | None \<Rightarrow> nextStartTime c),
               emitted := emitted c @ map SourceStop (sources c) @ [Volume 0]\<rparr>)"
  by (simp add: stopAllAudio_def stop_each_eq and_then_def emit_def Let_def split: option.splits)

lemma audio_block_frame:
  "\<exists>c1 es. audio_block env message c = Returns c1 \<and> emitted c1 = emitted c @ es \<and>
      outputAudioContext c1 = outputAudioContext c \<and> currentSession c1 = currentSession c"
  by (auto simp add: audio_block_def decode_try_def try_catch_def emit_def playAudio_def Let_def
      split: option.splits sum.splits)

lemma extends_refl: "extends c c"
  by (simp add: extends_def)

lemma extends_emit: "extends c (emit e c)"
  by (simp add: extends_def emit_def)

lemma extendsD:
  assumes "extends c c'"
  shows "c' = c\<lparr>emitted := emitted c @ emitted_since c c'\<rparr>"
proof -
  have a: "c'\<lparr>emitted := emitted c\<rparr> = c" and b: "take (length (emitted c)) (emitted c') = emitted c"
    using assms by (simp_all add: extends_def)
  have "emitted c' = emitted c @ emitted_since c c'"
    using b append_take_drop_id [of "length (emitted c)" "emitted c'"]
    by (simp add: emitted_since_def)
  then have "c' = c'\<lparr>emitted := emitted c @ emitted_since c c'\<rparr>" by simp
  also have "\<dots> = (c'\<lparr>emitted := emitted c\<rparr>)\<lparr>emitted := emitted c @ emitted_since c c'\<rparr>" by simp
  finally show ?thesis using a by simp
qed

lemma extendsI: "c' = c\<lparr>emitted := emitted c @ es\<rparr> \<Longrightarrow> extends c c'"
  by (simp add: extends_def)

lemma extends_trans: "extends c c' \<Longrightarrow> extends c' c'' \<Longrightarrow> extends c c''"
proof -
  assume "extends c c'" "extends c' c''"
  then have "c' = c\<lparr>emitted := emitted c @ emitted_since c c'\<rparr>"
    and "c'' = c'\<lparr>emitted := emitted c' @ emitted_since c' c''\<rparr>"
    by (auto dest: extendsD)
  then have "c'' = c\<lparr>emitted := emitted c @ (emitted_since c c' @ emitted_since c' c'')\<rparr>"
    by (metis (no_types, lifting) append.assoc client.surjective client.update_convs(9) client.select_convs(9))
  then show ?thesis by (rule extendsI)
qed

lemma handleToolCall_extends: "extends c (final (handleToolCall env now tc c))"
proof (cases "functionCalls tc")
  case None
  then show ?thesis by (simp add: handleToolCall_def extends_refl)
next
  case (Some fcs)
  show ?thesis
    by (simp only: handleToolCall_eq [OF Some] final.simps) (rule extendsI, rule refl)
qed

lemma toolCall_block_extends:
  "\<exists>c'. toolCall_block env now message c = Returns c' \<and> extends c c'"
  by (simp add: toolCall_block_def extends_refl handleToolCall_extends split: option.splits)

lemma extends_fields:
  assumes "extends c c'"
  shows "sources c' = sources c" and "nextStartTime c' = nextStartTime c"
    and "outputAudioContext c' = outputAudioContext c"
    and "inputAudioContext c' = inputAudioContext c"
    and "currentSession c' = currentSession c"
    and "processor c' = processor c" and "inputSource c' = inputSource c"
    and "ai c' = ai c" and "fresh_source c' = fresh_source c"
    and "emitted c' = emitted c @ emitted_since c c'"
proof -
  have e: "c' = c\<lparr>emitted := emitted c @ emitted_since c c'\<rparr>"
    using assms by (rule extendsD)
  show "sources c' = sources c" by (subst e) simp
  show "nextStartTime c' = nextStartTime c" by (subst e) simp
  show "outputAudioContext c' = outputAudioContext c" by (subst e) simp
  show "inputAudioContext c' = inputAudioContext c" by (subst e) simp
  show "currentSession c' = currentSession c" by (subst e) simp
  show "processor c' = processor c" by (subst e) simp
  show "inputSource c' = inputSource c" by (subst e) simp
  show "ai c' = ai c" by (subst e) simp
  show "fresh_source c' = fresh_source c" by (subst e) simp
  show "emitted c' = emitted c @ emitted_since c c'" by (subst e) simp
qed

lemma turnComplete_block_extends:
  "\<exists>c'. turnComplete_block message c = Returns c' \<and> extends c c'"
  by (simp add: turnComplete_block_def extends_refl extends_emit)

lemma interrupted_block_eq:
  "is_interrupted message \<Longrightarrow>
     interrupted_block env now message c =
       Returns (c\<lparr>sources := [],
                 nextStartTime := (case outputAudioContext c of
                                     Some ctx \<Rightarrow> currentTime ctx | None \<Rightarrow> nextStartTime c),
                 emitted := emitted c @ map SourceStop (sources c) @
                    [Volume 0, Log (log_entry now System ''Interrupted.'')]\<rparr>)"
  by (simp add: interrupted_block_def stopAllAudio_eq and_then_def emit_def)

lemma handleMessage_interrupted:
  assumes "is_interrupted message"
  shows "\<exists>c1 c4 A B.
           audio_block env message c = Returns c1 \<and>
           handleMessage env now message c = Returns c4 \<and>
           emitted c4 = emitted c @ A @ map SourceStop (sources c1) @
              [Volume 0, Log (log_entry now System ''Interrupted.'')] @ B \<and>
           sources c4 = [] \<and>
           outputAudioContext c4 = outputAudioContext c \<and>
           nextStartTime c4 = (case outputAudioContext c of
                                 Some ctx \<Rightarrow> currentTime ctx | None \<Rightarrow> nextStartTime c1)"
proof -
  obtain c1 A where a: "audio_block env message c = Returns c1"
    and a_em: "emitted c1 = emitted c @ A"
    and a_ctx: "outputAudioContext c1 = outputAudioContext c"
    using audio_block_frame [of env message c] by blast
  let ?c2 = "c1\<lparr>sources := [],
                 nextStartTime := (case outputAudioContext c1 of
                                     Some ctx \<Rightarrow> currentTime ctx | None \<Rightarrow> nextStartTime c1),
                 emitted := emitted c1 @ map SourceStop (sources c1) @
                    [Volume 0, Log (log_entry now System ''Interrupted.'')]\<rparr>"
  have i: "interrupted_block env now message c1 = Returns ?c2"
    by (rule interrupted_block_eq [OF assms])
  obtain c3 where t: "turnComplete_block message ?c2 = Returns c3" and t_ex: "extends ?c2 c3"
    using turnComplete_block_extends by blast
  obtain c4 where k: "toolCall_block env now message c3 = Returns c4" and k_ex: "extends c3 c4"
    using toolCall_block_extends by blast
  have ex: "extends ?c2 c4" using t_ex k_ex by (rule extends_trans)
  note f = extends_fields [OF ex]
  have h: "handleMessage env now message c = Returns c4"
    by (simp add: handleMessage_def and_then_def a i t k)
  have "emitted c4 = emitted c @ A @ map SourceStop (sources c1) @
              [Volume 0, Log (log_entry now System ''Interrupted.'')] @ emitted_since ?c2 c4"
    using f(10) a_em by simp
  moreover have "sources c4 = []" using f(1) by simp
  moreover have "outputAudioContext c4 = outputAudioContext c" using f(3) a_ctx by simp
  moreover have "nextStartTime c4 = (case outputAudioContext c of
                                 Some ctx \<Rightarrow> currentTime ctx | None \<Rightarrow> nextStartTime c1)"
    using f(2) a_ctx by simp
  ultimately show ?thesis using a h by blast
qed

lemma play_all_after:
  assumes "outputAudioContext c = Some ctx"
    and "\<forall>p \<in> set plays. 0 \<le> duration (snd p)"
    and "t \<in> set (start_times (emitted_since c (play_all plays c)))"
  shows "nextStartTime c \<le> t"
proof -
  have "t \<in> set (spec_schedule (nextStartTime c) (map timing plays))"
    using assms(3) play_all_start_times [OF assms(1), of plays] by simp
  from spec_schedule_lower [OF this timing_nonneg [OF assms(2)]] show ?thesis .
qed

section \<open>A concrete session\<close>

lemma example_connected_eq:
  "example_connected =
     \<lparr>ai = True,
      inputAudioContext = Some \<lparr>sampleRate = 16000, currentTime = 0\<rparr>,
      outputAudioContext = Some \<lparr>sampleRate = 24000, currentTime = 0\<rparr>,
      inputSource = Some 7, processor = Some 4096, nextStartTime = 0, sources = [],
      currentSession = Some Fulfilled,
      emitted = [StateChange CONNECTING, GetUserMedia, LiveConnect, StateChange CONNECTED,
                 Log (log_entry 1000 System ''Connected to Aryan.'')],
      fresh_source = 0\<rparr>"
  by (simp add: example_connected_def onopen_def connect_def connect_try_def try_catch_def
      example_setup_def new_client_def emit_def startAudioInput_def Let_def)

lemma example_disconnected_eq:
  "example_disconnected =
     \<lparr>ai = False, inputAudioContext = None, outputAudioContext = None,
      inputSource = None, processor = None, nextStartTime = 0, sources = [],
      currentSession = None,
      emitted = [StateChange CONNECTING, GetUserMedia, LiveConnect, StateChange CONNECTED,
                 Log (log_entry 1000 System ''Connected to Aryan.''), Volume 0,
                 ProcessorDisconnect, InputSourceDisconnect,
                 ContextClose \<lparr>sampleRate = 16000, currentTime = 0\<rparr>,
                 ContextClose \<lparr>sampleRate = 24000, currentTime = 0\<rparr>],
      fresh_source = 0\<rparr>"
  by (simp add: example_disconnected_def example_connected_eq disconnect_def stopAllAudio_eq
      and_then_def emit_def Let_def)

section \<open>C2: interruption\<close>

text \<open>
  Claim C2. A message with the \<open>interrupted\<close> flag is handled without an exception,
  whatever \<open>stop\<close> throws: every source that is live when the flag is read (those live
  before the message and the one its own payload may have scheduled) is stopped, the
  live set is empty afterwards, loudness 0 is reported and a system entry is logged.
  When there is an output context, \<open>nextStartTime\<close> is its clock, and every buffer
  scheduled afterwards, in a run without negative durations, starts at or after that
  clock.
\<close>

theorem interrupted_stops_playback:
  assumes "is_interrupted message"
  shows "returns (handleMessage env now message c) \<and>
         sources (final (handleMessage env now message c)) = [] \<and>
         (\<forall>s \<in> set (sources (final (audio_block env message c))).
            SourceStop s \<in> set (emitted_since c (final (handleMessage env now message c)))) \<and>
         set (sources c) \<subseteq> set (sources (final (audio_block env message c))) \<and>
         Volume 0 \<in> set (emitted_since c (final (handleMessage env now message c))) \<and>
         Log (log_entry now System ''Interrupted.'')
           \<in> set (emitted_since c (final (handleMessage env now message c))) \<and>
         (\<forall>ctx. outputAudioContext c = Some ctx \<longrightarrow>
            nextStartTime (final (handleMessage env now message c)) = currentTime ctx \<and>
            (\<forall>plays. (\<forall>p \<in> set plays. 0 \<le> duration (snd p)) \<longrightarrow>
               (\<forall>t \<in> set (start_times
                    (emitted_since (final (handleMessage env now message c))
                       (play_all plays (final (handleMessage env now message c))))).
                  currentTime ctx \<le> t)))"
proof -
  from handleMessage_interrupted [OF assms, of env c now]
  obtain c1 c4 A B where a: "audio_block env message c = Returns c1"
    and h: "handleMessage env now message c = Returns c4"
    and em: "emitted c4 = emitted c @ A @ map SourceStop (sources c1) @
              [Volume 0, Log (log_entry now System ''Interrupted.'')] @ B"
    and src: "sources c4 = []"
    and ctx: "outputAudioContext c4 = outputAudioContext c"
    and nst: "nextStartTime c4 = (case outputAudioContext c of
                                 Some ctx \<Rightarrow> currentTime ctx | None \<Rightarrow> nextStartTime c1)"
    by blast
  have since: "emitted_since c c4 = A @ map SourceStop (sources c1) @
              [Volume 0, Log (log_entry now System ''Interrupted.'')] @ B"
    using em by (simp add: emitted_since_def)
  have sub: "set (sources c) \<subseteq> set (sources c1)"
    using a by (auto simp add: audio_block_def decode_try_def try_catch_def emit_def playAudio_def
        Let_def split: option.splits sum.splits if_splits)
  have later: "\<forall>ctx'. outputAudioContext c = Some ctx' \<longrightarrow>
            nextStartTime c4 = currentTime ctx' \<and>
            (\<forall>plays. (\<forall>p \<in> set plays. 0 \<le> duration (snd p)) \<longrightarrow>
               (\<forall>t \<in> set (start_times (emitted_since c4 (play_all plays c4))).
                  currentTime ctx' \<le> t))"
  proof (intro allI impI conjI ballI)
    fix ctx' assume c: "outputAudioContext c = Some ctx'"
    show n: "nextStartTime c4 = currentTime ctx'" using nst c by simp
    fix plays t
    assume d: "\<forall>p \<in> set plays. 0 \<le> duration (snd p)"
      and t: "t \<in> set (start_times (emitted_since c4 (play_all plays c4)))"
    have "outputAudioContext c4 = Some ctx'" using ctx c by simp
    from play_all_after [OF this d t] show "currentTime ctx' \<le> t" using n by simp
  qed
  show ?thesis
    using src sub later by (simp add: h a since)
qed

theorem interrupted_stops_playback_witness:
  "is_interrupted interrupt_message \<and>
   returns (handleMessage example_env 1000 interrupt_message example_playing) \<and>
   sources (final (handleMessage example_env 1000 interrupt_message example_playing)) = [] \<and>
   SourceStop 0 \<in> set (emitted_since example_playing
      (final (handleMessage example_env 1000 interrupt_message example_playing))) \<and>
   SourceStop 1 \<in> set (emitted_since example_playing
      (final (handleMessage example_env 1000 interrupt_message example_playing))) \<and>
   nextStartTime (final (handleMessage example_env 1000 interrupt_message example_playing)) = 3 \<and>
   list_all (\<lambda>t. 3 \<le> t) (start_times
      (emitted_since (final (handleMessage example_env 1000 interrupt_message example_playing))
         (play_all [(1, \<lparr>duration = 2\<rparr>), (4, \<lparr>duration = 1\<rparr>)]
            (final (handleMessage example_env 1000 interrupt_message example_playing)))))"
proof -
  let ?c' = "final (handleMessage example_env 1000 interrupt_message example_playing)"
  have h: "is_interrupted interrupt_message"
    by (simp add: is_interrupted_def interrupt_message_def)
  note T = interrupted_stops_playback [OF h, of example_env 1000 example_playing]
  note T1 = T [THEN conjunct1]
  note T2 = T [THEN conjunct2, THEN conjunct1]
  note T3 = T [THEN conjunct2, THEN conjunct2, THEN conjunct1]
  note T7 = T [THEN conjunct2, THEN conjunct2, THEN conjunct2, THEN conjunct2, THEN conjunct2,
      THEN conjunct2]
  have a: "sources (final (audio_block example_env interrupt_message example_playing)) = [0, 1]"
    by (simp add: audio_block_def audio_payload_def interrupt_message_def example_playing_def)
  have ctx: "outputAudioContext example_playing = Some \<lparr>sampleRate = 24000, currentTime = 3\<rparr>"
    by (simp add: example_playing_def)
  have s0: "SourceStop 0 \<in> set (emitted_since example_playing ?c')"
    by (rule T3 [THEN bspec]) (simp add: a)
  have s1: "SourceStop 1 \<in> set (emitted_since example_playing ?c')"
    by (rule T3 [THEN bspec]) (simp add: a)
  note T7' = T7 [rule_format, OF ctx]
  have n: "nextStartTime ?c' = 3"
    using T7' [THEN conjunct1] by simp
  have d: "\<forall>p \<in> set [(1::real, \<lparr>duration = 2\<rparr>), (4, \<lparr>duration = 1\<rparr>)]. 0 \<le> duration (snd p)"
    by simp
  have "\<forall>t \<in> set (start_times (emitted_since ?c'
         (play_all [(1, \<lparr>duration = 2\<rparr>), (4, \<lparr>duration = 1\<rparr>)] ?c'))). 3 \<le> t"
  proof
    fix t
    assume "t \<in> set (start_times (emitted_since ?c'
         (play_all [(1, \<lparr>duration = 2\<rparr>), (4, \<lparr>duration = 1\<rparr>)] ?c')))"
    from T7' [THEN conjunct2, rule_format, OF d [rule_format] this] show "3 \<le> t" by simp
  qed
  then have l: "list_all (\<lambda>t. 3 \<le> t) (start_times (emitted_since ?c'
         (play_all [(1, \<lparr>duration = 2\<rparr>), (4, \<lparr>duration = 1\<rparr>)] ?c')))"
    by (simp only: list_all_iff)
  from h T1 T2 s0 s1 n l show ?thesis by (intro conjI)
qed

section \<open>C3: tool calls\<close>

lemma example_work:
  "concat (map (call_effects example_env 2000) example_calls) =
     [Log (tool_log 2000 \<lparr>fc_id = ''call-1'', fc_name = ''getSystemTime'', fc_args = None\<rparr>),
      ToolAction ''Time: 2000'',
      Log (tool_log 2000 \<lparr>fc_id = ''call-2'', fc_name = ''openWebsite'', fc_args = None\<rparr>),
      Log (tool_log 2000 \<lparr>fc_id = ''call-3'', fc_name = ''reboot'', fc_args = None\<rparr>),
      Log (tool_log 2000 \<lparr>fc_id = ''call-4'', fc_name = ''setScreenMode'',
                            fc_args = Some [''mode'' \<mapsto> ''dark'']\<rparr>),
      ThemeChange (Some ''dark''), ToolAction ''dark mode active'']"
proof -
  have t2000: "toString 2000 = ''2000''" by (simp add: toString.simps)
  show ?thesis
    by (simp add: example_calls_def call_effects_def handler_effects_def tool_try_def
        try_catch_def example_env_def t2000 Let_def emit_def new_client_def js_str_def)
qed

lemma example_results:
  "map (call_result example_env 2000) example_calls =
     [Time ''2000'', ErrorMessage (TypeError_message example_env ''url''), Status ''ok'',
      Result ''Set mode to dark'']"
proof -
  have t2000: "toString 2000 = ''2000''" by (simp add: toString.simps)
  show ?thesis
    by (simp add: example_calls_def call_result_def tool_try_def try_catch_def example_env_def
        t2000 Let_def js_str_def)
qed

text \<open>
  Claim C3, as the code has it. A tool call is handled without an exception and
  changes nothing but what it emits. For each request, in their order, the tool log
  entry is emitted and then the handler runs, whatever the transport handle is; after
  the last request the responses are sent, in the same order. While the handle is
  present and resolved, and no send throws, that is exactly one response per request,
  carrying the request's id and name; with any other handle (none after
  \<open>disconnect\<close>, or a rejected one) nothing is sent. The handlers open the site,
  change the theme or read the clock and report the action; a request with an
  unrecognized name does nothing and its result is \<open>{status: 'ok'}\<close>; a handler that
  throws does nothing and its result carries the exception's message.
\<close>

theorem tool_call_responses:
  assumes "functionCalls tc = Some fcs"
  shows "returns (handleToolCall env now tc c) \<and>
    extends c (final (handleToolCall env now tc c)) \<and>
    emitted_since c (final (handleToolCall env now tc c)) =
      concat (map (call_effects env now) fcs) @
      map SendToolResponse (delivered env (currentSession c) (map (response_to env now) fcs)) \<and>
    (currentSession c = Some Fulfilled \<and> (\<forall>r. sendToolResponse_throws env r = None) \<longrightarrow>
       emitted_since c (final (handleToolCall env now tc c)) =
         concat (map (call_effects env now) fcs) @
         map SendToolResponse (map (response_to env now) fcs) \<and>
       map resp_id (tool_responses (emitted_since c (final (handleToolCall env now tc c))))
         = map fc_id fcs \<and>
       map resp_name (tool_responses (emitted_since c (final (handleToolCall env now tc c))))
         = map fc_name fcs \<and>
       map resp_result (tool_responses (emitted_since c (final (handleToolCall env now tc c))))
         = map (call_result env now) fcs) \<and>
    (currentSession c \<noteq> Some Fulfilled \<longrightarrow>
       emitted_since c (final (handleToolCall env now tc c)) =
         concat (map (call_effects env now) fcs) \<and>
       tool_responses (emitted_since c (final (handleToolCall env now tc c))) = []) \<and>
    (\<forall>fc. call_effects env now fc = Log (tool_log now fc) # handler_effects env now fc) \<and>
    (\<forall>fc args. fc_name fc = ''openWebsite'' \<and> fc_args fc = Some args \<and>
          window_open_throws env (args ''url'') = None \<longrightarrow>
          handler_effects env now fc =
            [WindowOpen (args ''url''), ToolAction (''Opened '' @ js_str (args ''url''))] \<and>
          call_result env now fc = Result (''Opened '' @ js_str (args ''url''))) \<and>
    (\<forall>fc args. fc_name fc = ''setScreenMode'' \<and> fc_args fc = Some args \<longrightarrow>
          handler_effects env now fc =
            [ThemeChange (args ''mode''), ToolAction (js_str (args ''mode'') @ '' mode active'')] \<and>
          call_result env now fc = Result (''Set mode to '' @ js_str (args ''mode''))) \<and>
    (\<forall>fc. fc_name fc = ''getSystemTime'' \<longrightarrow>
          handler_effects env now fc = [ToolAction (''Time: '' @ toLocaleString env now)] \<and>
          call_result env now fc = Time (toLocaleString env now)) \<and>
    (\<forall>fc. fc_name fc \<noteq> ''openWebsite'' \<and> fc_name fc \<noteq> ''setScreenMode'' \<and>
          fc_name fc \<noteq> ''getSystemTime'' \<longrightarrow>
          handler_effects env now fc = [] \<and> call_result env now fc = Status ''ok'') \<and>
    (\<forall>fc m c0 rc. tool_try env now fc (Status ''ok'', c0) = Throws m rc \<longrightarrow>
          handler_effects env now fc = [] \<and> call_result env now fc = ErrorMessage m)"
proof -
  let ?c' = "final (handleToolCall env now tc c)"
  let ?work = "concat (map (call_effects env now) fcs)"
  let ?rs = "map (response_to env now) fcs"
  note eq = handleToolCall_eq [OF assms, of env now c]
  have r: "returns (handleToolCall env now tc c)" by (simp add: eq)
  have x: "extends c ?c'" by (rule handleToolCall_extends)
  have since: "emitted_since c ?c' =
      ?work @ map SendToolResponse (delivered env (currentSession c) ?rs)"
    by (rule emitted_since_append) (simp add: eq)
  have resp: "tool_responses (?work @ map SendToolResponse rs) = rs" for rs
    by (simp add: tool_responses_append tool_responses_work tool_responses_sends)
  have maps: "map resp_id ?rs = map fc_id fcs" "map resp_name ?rs = map fc_name fcs"
      "map resp_result ?rs = map (call_result env now) fcs"
    by (simp_all add: response_to_def comp_def)
  have sent: "currentSession c = Some Fulfilled \<and> (\<forall>r. sendToolResponse_throws env r = None) \<longrightarrow>
       emitted_since c ?c' = ?work @ map SendToolResponse ?rs \<and>
       map resp_id (tool_responses (emitted_since c ?c')) = map fc_id fcs \<and>
       map resp_name (tool_responses (emitted_since c ?c')) = map fc_name fcs \<and>
       map resp_result (tool_responses (emitted_since c ?c')) = map (call_result env now) fcs"
  proof
    assume a: "currentSession c = Some Fulfilled \<and> (\<forall>r. sendToolResponse_throws env r = None)"
    then have "delivered env (currentSession c) ?rs = ?rs"
      by (simp add: delivered_def)
    then have e: "emitted_since c ?c' = ?work @ map SendToolResponse ?rs"
      by (simp only: since)
    have "tool_responses (emitted_since c ?c') = ?rs"
      by (simp only: e resp)
    with e maps show "emitted_since c ?c' = ?work @ map SendToolResponse ?rs \<and>
       map resp_id (tool_responses (emitted_since c ?c')) = map fc_id fcs \<and>
       map resp_name (tool_responses (emitted_since c ?c')) = map fc_name fcs \<and>
       map resp_result (tool_responses (emitted_since c ?c')) = map (call_result env now) fcs"
      by simp
  qed
  have dropped: "currentSession c \<noteq> Some Fulfilled \<longrightarrow>
       emitted_since c ?c' = ?work \<and> tool_responses (emitted_since c ?c') = []"
  proof
    assume "currentSession c \<noteq> Some Fulfilled"
    then have "delivered env (currentSession c) ?rs = []"
      by (simp add: delivered_def split: option.splits session_promise.splits)
    then have e: "emitted_since c ?c' = ?work" by (simp add: since)
    then show "emitted_since c ?c' = ?work \<and> tool_responses (emitted_since c ?c') = []"
      by (simp add: tool_responses_work)
  qed
  have first: "\<forall>fc. call_effects env now fc = Log (tool_log now fc) # handler_effects env now fc"
    by (simp add: call_effects_def)
  have h1: "\<forall>fc args. fc_name fc = ''openWebsite'' \<and> fc_args fc = Some args \<and>
          window_open_throws env (args ''url'') = None \<longrightarrow>
          handler_effects env now fc =
            [WindowOpen (args ''url''), ToolAction (''Opened '' @ js_str (args ''url''))] \<and>
          call_result env now fc = Result (''Opened '' @ js_str (args ''url''))"
    using handler_effects_cases(1) by blast
  have h2: "\<forall>fc args. fc_name fc = ''setScreenMode'' \<and> fc_args fc = Some args \<longrightarrow>
          handler_effects env now fc =
            [ThemeChange (args ''mode''), ToolAction (js_str (args ''mode'') @ '' mode active'')] \<and>
          call_result env now fc = Result (''Set mode to '' @ js_str (args ''mode''))"
    using handler_effects_cases(2) by blast
  have h3: "\<forall>fc. fc_name fc = ''getSystemTime'' \<longrightarrow>
          handler_effects env now fc = [ToolAction (''Time: '' @ toLocaleString env now)] \<and>
          call_result env now fc = Time (toLocaleString env now)"
    using handler_effects_cases(3) by blast
  have h4: "\<forall>fc. fc_name fc \<noteq> ''openWebsite'' \<and> fc_name fc \<noteq> ''setScreenMode'' \<and>
          fc_name fc \<noteq> ''getSystemTime'' \<longrightarrow>
          handler_effects env now fc = [] \<and> call_result env now fc = Status ''ok''"
    using handler_effects_cases(4) by blast
  have h5: "\<forall>fc m c0 rc. tool_try env now fc (Status ''ok'', c0) = Throws m rc \<longrightarrow>
          handler_effects env now fc = [] \<and> call_result env now fc = ErrorMessage m"
    using tool_try_throws by blast
  from r x since sent dropped first h1 h2 h3 h4 h5 show ?thesis by (intro conjI)
qed

theorem tool_call_responses_witness:
  "functionCalls \<lparr>functionCalls = Some example_calls\<rparr> = Some example_calls \<and>
   currentSession example_connected = Some Fulfilled \<and>
   sendToolResponse_throws example_env
     \<lparr>resp_id = ''call-1'', resp_name = ''getSystemTime'', resp_result = Time ''2000''\<rparr> = None \<and>
   emitted_since example_connected
      (final (handleToolCall example_env 2000 \<lparr>functionCalls = Some example_calls\<rparr>
         example_connected)) =
     [Log (tool_log 2000 \<lparr>fc_id = ''call-1'', fc_name = ''getSystemTime'', fc_args = None\<rparr>),
      ToolAction ''Time: 2000'',
      Log (tool_log 2000 \<lparr>fc_id = ''call-2'', fc_name = ''openWebsite'', fc_args = None\<rparr>),
      Log (tool_log 2000 \<lparr>fc_id = ''call-3'', fc_name = ''reboot'', fc_args = None\<rparr>),
      Log (tool_log 2000 \<lparr>fc_id = ''call-4'', fc_name = ''setScreenMode'',
                            fc_args = Some [''mode'' \<mapsto> ''dark'']\<rparr>),
      ThemeChange (Some ''dark''), ToolAction ''dark mode active''] @
     map SendToolResponse (map (response_to example_env 2000) example_calls) \<and>
   map resp_id (tool_responses (emitted_since example_connected
      (final (handleToolCall example_env 2000 \<lparr>functionCalls = Some example_calls\<rparr>
         example_connected)))) = [''call-1'', ''call-2'', ''call-3'', ''call-4''] \<and>
   map resp_result (tool_responses (emitted_since example_connected
      (final (handleToolCall example_env 2000 \<lparr>functionCalls = Some example_calls\<rparr>
         example_connected)))) =
     [Time ''2000'', ErrorMessage (TypeError_message example_env ''url''), Status ''ok'',
      Result ''Set mode to dark''] \<and>
   currentSession example_disconnected = None \<and>
   emitted_since example_disconnected
      (final (handleToolCall example_env 2000 \<lparr>functionCalls = Some example_calls\<rparr>
         example_disconnected)) =
     [Log (tool_log 2000 \<lparr>fc_id = ''call-1'', fc_name = ''getSystemTime'', fc_args = None\<rparr>),
      ToolAction ''Time: 2000'',
      Log (tool_log 2000 \<lparr>fc_id = ''call-2'', fc_name = ''openWebsite'', fc_args = None\<rparr>),
      Log (tool_log 2000 \<lparr>fc_id = ''call-3'', fc_name = ''reboot'', fc_args = None\<rparr>),
      Log (tool_log 2000 \<lparr>fc_id = ''call-4'', fc_name = ''setScreenMode'',
                            fc_args = Some [''mode'' \<mapsto> ''dark'']\<rparr>),
      ThemeChange (Some ''dark''), ToolAction ''dark mode active'']"
proof -
  let ?tc = "\<lparr>functionCalls = Some example_calls\<rparr>"
  have h: "functionCalls ?tc = Some example_calls" by simp
  note T = tool_call_responses [OF h, of example_env 2000 example_connected]
  note D = tool_call_responses [OF h, of example_env 2000 example_disconnected]
  have s: "currentSession example_connected = Some Fulfilled"
    by (simp add: example_connected_eq)
  have q: "\<forall>r. sendToolResponse_throws example_env r = None"
    by (simp add: example_env_def)
  have n: "currentSession example_disconnected = None"
    by (simp add: example_disconnected_eq)
  have n': "currentSession example_disconnected \<noteq> Some Fulfilled"
    by (simp add: n)
  note T4 = T [THEN conjunct2, THEN conjunct2, THEN conjunct2, THEN conjunct1, rule_format,
      OF conjI [OF s q]]
  note D5 = D [THEN conjunct2, THEN conjunct2, THEN conjunct2, THEN conjunct2, THEN conjunct1,
      rule_format, OF n']
  have ids: "map fc_id example_calls = [''call-1'', ''call-2'', ''call-3'', ''call-4'']"
    by (simp add: example_calls_def)
  have q1: "sendToolResponse_throws example_env
     \<lparr>resp_id = ''call-1'', resp_name = ''getSystemTime'', resp_result = Time ''2000''\<rparr> = None"
    using q by blast
  from h s q1 T4 [THEN conjunct1] T4 [THEN conjunct2, THEN conjunct1]
    T4 [THEN conjunct2, THEN conjunct2, THEN conjunct2] n D5 [THEN conjunct1]
  show ?thesis unfolding ids example_results example_work by (intro conjI)
qed

text \<open>
  The claim as written fails after \<open>disconnect\<close>, which clears the handle and leaves the
  transport open: a request that arrives then is logged and executed (the site is
  opened), and nothing is sent back.
\<close>

theorem tool_result_dropped_counterexample:
  "emitted_since example_disconnected
      (final (handleToolCall example_env 2000 example_tool_call example_disconnected)) =
     [Log (tool_log 2000 example_call), WindowOpen (Some ''https://example.org''),
      ToolAction ''Opened https://example.org''] \<and>
   tool_responses (emitted_since example_disconnected
      (final (handleToolCall example_env 2000 example_tool_call example_disconnected))) = []"
  by (simp add: example_disconnected_eq handleToolCall_def example_tool_call_def handle_call_def
      then_send_def tool_try_def example_call_def example_env_def try_catch_def emit_def Let_def
      js_str_def emitted_since_def tool_responses_def)

section \<open>C4: the 16-bit encoder\<close>

lemma clamp_cases:
  "clamp (Finite a) = Finite (max (- 1) (min 1 a))"
  "clamp NaN = NaN"
  "clamp PosInfinity = Finite 1"
  "clamp NegInfinity = Finite (- 1)"
  by (simp_all add: clamp_def)

lemma truncate_bounds:
  assumes "- 32768 \<le> x" and "x \<le> 32767"
  shows "- 32768 \<le> truncate x \<and> truncate x \<le> 32767"
proof (cases "x < 0")
  case True
  have "\<lceil>x\<rceil> \<le> 0" using True by (simp add: ceiling_le_iff)
  moreover have "- 32768 \<le> \<lceil>x\<rceil>" using assms(1) by (simp add: le_ceiling_iff)
  ultimately show ?thesis using True by (simp add: truncate_def)
next
  case False
  have "0 \<le> \<lfloor>x\<rfloor>" using False by simp
  moreover have "\<lfloor>x\<rfloor> \<le> 32767" using assms(2) by (simp add: floor_le_iff)
  ultimately show ?thesis using False by (simp add: truncate_def)
qed

lemma sint_word_of_int_16:
  assumes "- 32768 \<le> n" and "n \<le> 32767"
  shows "sint (word_of_int n :: 16 word) = n"
proof -
  have "signed_take_bit 15 n = n"
    using assms by (simp add: signed_take_bit_int_eq_self)
  then show ?thesis by (simp add: sint_sbintrunc')
qed

lemma scaled_clamp_bounds: "- 32768 \<le> scaled_clamp a \<and> scaled_clamp a \<le> 32767"
proof -
  let ?s = "max (- 1) (min 1 a)"
  have s: "- 1 \<le> ?s" "?s \<le> 1" by simp_all
  show ?thesis
  proof (cases "?s < 0")
    case True
    then have "scaled_clamp a = ?s * 32768" by (simp add: scaled_clamp_def Let_def)
    moreover have "- 32768 \<le> ?s * 32768" using s(1) by linarith
    moreover have "?s * 32768 \<le> 32767" using True by linarith
    ultimately show ?thesis by simp
  next
    case False
    then have "scaled_clamp a = ?s * 32767" by (simp add: scaled_clamp_def Let_def)
    moreover have "- 32768 \<le> ?s * 32767" using False by linarith
    moreover have "?s * 32767 \<le> 32767" using s(2) by linarith
    ultimately show ?thesis by simp
  qed
qed

lemma encode_sample_Finite:
  "sint (encode_sample (Finite a)) = truncate (scaled_clamp a)"
proof -
  have "encode_sample (Finite a) = word_of_int (truncate (scaled_clamp a))"
  proof (cases "max (- 1) (min 1 a) < 0")
    case True
    then show ?thesis
      by (simp only: encode_sample_def clamp_cases scaled_clamp_def Let_def negative.simps
          scaled.simps ToInt16.simps if_True)
  next
    case False
    then show ?thesis
      by (simp only: encode_sample_def clamp_cases scaled_clamp_def Let_def negative.simps
          scaled.simps ToInt16.simps if_False)
  qed
  moreover have "- 32768 \<le> truncate (scaled_clamp a) \<and> truncate (scaled_clamp a) \<le> 32767"
    using scaled_clamp_bounds [of a] truncate_bounds by blast
  ultimately show ?thesis by (simp add: sint_word_of_int_16)
qed

lemma encode_sample_special:
  "encode_sample NaN = 0"
  "sint (encode_sample PosInfinity) = 32767"
  "sint (encode_sample NegInfinity) = - 32768"
  by (simp_all add: encode_sample_def clamp_cases Let_def truncate_def)

lemma encode_sample_zero: "encode_sample (Finite 0) = 0"
  by (simp add: encode_sample_def clamp_cases Let_def truncate_def)

lemma silent_bytes:
  "concat (map int16_bytes (encode_int16 (replicate n (Finite 0)))) = replicate (2 * n) 0"
  by (induction n) (simp_all add: encode_int16_def encode_sample_zero int16_bytes_def)

lemma decode_silent: "decode_samples (replicate (2 * n) 0) = replicate n 0"
  by (induction n) (simp_all add: decode_samples_def decode_sample_def)

lemma sint_16_range: "- 32768 \<le> sint (w :: 16 word) \<and> sint w \<le> 32767"
  using sint_range_size [of w] by (simp add: word_size)

lemma word_cat_bytes:
  "word_cat (ucast (drop_bit 8 w) :: 8 word) (ucast w :: 8 word) = (w :: 16 word)"
proof (rule bit_word_eqI)
  fix n assume "n < LENGTH(16)"
  then show "bit (word_cat (ucast (drop_bit 8 w) :: 8 word) (ucast w :: 8 word) :: 16 word) n = bit w n"
    by (auto simp add: bit_word_cat_iff bit_ucast_iff bit_drop_bit_eq not_less)
qed

lemma decode_int16_bytes: "decode_int16 (concat (map int16_bytes ws)) = ws"
  by (induction ws) (simp_all add: int16_bytes_def word_cat_bytes)

lemma spec_encode_range: "- 32768 \<le> spec_encode x \<and> spec_encode x \<le> 32767"
proof (cases x)
  case (Finite a)
  then show ?thesis
    using scaled_clamp_bounds [of a] truncate_bounds [of "scaled_clamp a"] by simp
qed simp_all

lemma encode_sample_spec: "sint (encode_sample x) = spec_encode x"
  by (cases x) (simp_all add: encode_sample_Finite encode_sample_special)

text \<open>
  Claim C4. The first loop of \<open>createPcmBlob\<close> yields one 16-bit value per sample (and
  the byte view two bytes per sample, least significant first, from which the values
  are read back unchanged). The value at each index is the encoding of the sample at
  that index, and it is the value the specification gives: a finite sample is clamped
  to \<open>[-1, 1]\<close> and scaled by 32768 when negative and by 32767 otherwise; the scaled
  value lies in \<open>[-32768, 32767]\<close>, so storing it truncates and never wraps. The
  infinities are stored as the two ends of the range and NaN as 0. So every stored value
  lies in \<open>[-32768, 32767]\<close>. The blob is the base64 text of those bytes, tagged with
  the rate. A silent block encodes to zero bytes and decodes back to zeros.
\<close>

theorem createPcmBlob_encoding:
  "length (encode_int16 samples) = length samples \<and>
   length (concat (map int16_bytes (encode_int16 samples))) = 2 * length samples \<and>
   (\<forall>i. i < length samples \<longrightarrow>
        encode_int16 samples ! i = encode_sample (samples ! i) \<and>
        sint (encode_int16 samples ! i) = spec_encode (samples ! i)) \<and>
   map sint (encode_int16 samples) = map spec_encode samples \<and>
   (\<forall>x. - 32768 \<le> spec_encode x \<and> spec_encode x \<le> 32767) \<and>
   (\<forall>a. sint (encode_sample (Finite a)) = truncate (scaled_clamp a) \<and>
        - 32768 \<le> scaled_clamp a \<and> scaled_clamp a \<le> 32767) \<and>
   encode_sample NaN = 0 \<and>
   sint (encode_sample PosInfinity) = 32767 \<and>
   sint (encode_sample NegInfinity) = - 32768 \<and>
   (\<forall>i. i < length samples \<longrightarrow>
        - 32768 \<le> sint (encode_int16 samples ! i) \<and> sint (encode_int16 samples ! i) \<le> 32767) \<and>
   createPcmBlob env samples rate =
     \<lparr>mimeType = ''audio/pcm;rate='' @ toString rate,
      data = btoa env (concat (map int16_bytes (map encode_sample samples)))\<rparr> \<and>
   decode_int16 (concat (map int16_bytes (encode_int16 samples))) = map encode_sample samples \<and>
   data (createPcmBlob env (replicate n (Finite 0)) rate) = btoa env (replicate (2 * n) 0) \<and>
   decode_samples (concat (map int16_bytes (encode_int16 (replicate n (Finite 0))))) =
     replicate n 0"
proof -
  have len: "length (encode_int16 samples) = length samples"
    by (simp add: encode_int16_def)
  have blen: "length (concat (map int16_bytes (encode_int16 samples))) = 2 * length samples"
    by (induction samples) (simp_all add: encode_int16_def int16_bytes_def)
  have each: "\<forall>i. i < length samples \<longrightarrow>
        encode_int16 samples ! i = encode_sample (samples ! i) \<and>
        sint (encode_int16 samples ! i) = spec_encode (samples ! i)"
    by (simp add: encode_int16_def encode_sample_spec)
  have all: "map sint (encode_int16 samples) = map spec_encode samples"
    by (simp add: encode_int16_def encode_sample_spec)
  have srng: "\<forall>x. - 32768 \<le> spec_encode x \<and> spec_encode x \<le> 32767"
    using spec_encode_range by blast
  have fin: "\<forall>a. sint (encode_sample (Finite a)) = truncate (scaled_clamp a) \<and>
        - 32768 \<le> scaled_clamp a \<and> scaled_clamp a \<le> 32767"
    using encode_sample_Finite scaled_clamp_bounds by blast
  have rng: "\<forall>i. i < length samples \<longrightarrow>
        - 32768 \<le> sint (encode_int16 samples ! i) \<and> sint (encode_int16 samples ! i) \<le> 32767"
    by (simp add: encode_int16_def encode_sample_spec spec_encode_range)
  have whole: "createPcmBlob env samples rate =
     \<lparr>mimeType = ''audio/pcm;rate='' @ toString rate,
      data = btoa env (concat (map int16_bytes (map encode_sample samples)))\<rparr>"
    by (simp add: createPcmBlob_def encode_int16_def)
  have unpacked: "decode_int16 (concat (map int16_bytes (encode_int16 samples))) =
      map encode_sample samples"
    by (simp only: decode_int16_bytes encode_int16_def)
  have blob: "data (createPcmBlob env (replicate n (Finite 0)) rate) =
        btoa env (replicate (2 * n) 0)"
    by (simp only: createPcmBlob_def silent_bytes media.select_convs)
  have rt: "decode_samples (concat (map int16_bytes (encode_int16 (replicate n (Finite 0))))) =
     replicate n 0"
    by (simp only: silent_bytes decode_silent)
  from len blen each all srng fin encode_sample_special rng whole unpacked blob rt
  show ?thesis by (intro conjI)
qed

theorem createPcmBlob_encoding_witness:
  "length (encode_int16 example_samples) = 4 \<and>
   map sint (encode_int16 example_samples) = [16383, - 32768, 0, 32767] \<and>
   sint (encode_sample (Finite (1 / 2))) = 16383 \<and>
   sint (encode_sample (Finite (- 2))) = - 32768 \<and>
   (2::nat) < length example_samples \<and>
   encode_int16 example_samples ! 2 = encode_sample (example_samples ! 2) \<and>
   - 32768 \<le> sint (encode_int16 example_samples ! 2) \<and>
   sint (encode_int16 example_samples ! 2) \<le> 32767 \<and>
   decode_samples (concat (map int16_bytes (encode_int16 (replicate 3 (Finite 0))))) = [0, 0, 0]"
proof -
  note T = createPcmBlob_encoding [of example_samples example_env 16000 3]
  have l: "length example_samples = 4" by (simp add: example_samples_def)
  have a: "length (encode_int16 example_samples) = 4"
    using T [THEN conjunct1] l by simp
  have h: "truncate (scaled_clamp (1 / 2)) = 16383"
    by (simp add: scaled_clamp_def truncate_def Let_def)
  have m: "truncate (scaled_clamp (- 2)) = - 32768"
    by (simp add: scaled_clamp_def truncate_def Let_def)
  have sp: "map spec_encode example_samples = [16383, - 32768, 0, 32767]"
    by (simp add: example_samples_def h m)
  have vals: "map sint (encode_int16 example_samples) = [16383, - 32768, 0, 32767]"
    using T [THEN conjunct2, THEN conjunct2, THEN conjunct2, THEN conjunct1] sp by simp
  note F = T [THEN conjunct2, THEN conjunct2, THEN conjunct2, THEN conjunct2, THEN conjunct2,
      THEN conjunct1, rule_format]
  have b: "sint (encode_sample (Finite (1 / 2))) = 16383"
    using F [of "1 / 2", THEN conjunct1] h by simp
  have c: "sint (encode_sample (Finite (- 2))) = - 32768"
    using F [of "- 2", THEN conjunct1] m by simp
  have i: "(2::nat) < length example_samples" using l by simp
  note E = T [THEN conjunct2, THEN conjunct2, THEN conjunct1, rule_format, OF i]
  note R = T [THEN conjunct2, THEN conjunct2, THEN conjunct2, THEN conjunct2, THEN conjunct2,
      THEN conjunct2, THEN conjunct2, THEN conjunct2, THEN conjunct2, THEN conjunct1,
      rule_format, OF i]
  have rep: "replicate 3 (0::real) = [0, 0, 0]" by (simp add: numeral_3_eq_3)
  have d: "decode_samples (concat (map int16_bytes (encode_int16 (replicate 3 (Finite 0))))) =
      [0, 0, 0]"
    using T [THEN conjunct2, THEN conjunct2, THEN conjunct2, THEN conjunct2, THEN conjunct2,
      THEN conjunct2, THEN conjunct2, THEN conjunct2, THEN conjunct2, THEN conjunct2,
      THEN conjunct2, THEN conjunct2, THEN conjunct2] rep by simp
  from a vals b c i E [THEN conjunct1] R [THEN conjunct1] R [THEN conjunct2] d
  show ?thesis by (intro conjI)
qed

section \<open>Lemmas on teardown and the session state\<close>

lemma connectionState_append:
  "connectionState s (xs @ ys) = connectionState (connectionState s xs) ys"
  by (induction s xs rule: connectionState.induct) simp_all

lemma state_changes_simps:
  "state_changes [] = []"
  "state_changes (xs @ ys) = state_changes xs @ state_changes ys"
  "state_changes (StateChange s # es) = s # state_changes es"
  "state_changes (Volume v # es) = state_changes es"
  "state_changes (SourceStop n # es) = state_changes es"
  "state_changes (ProcessorDisconnect # es) = state_changes es"
  "state_changes (InputSourceDisconnect # es) = state_changes es"
  "state_changes (ContextClose ctx # es) = state_changes es"
  "state_changes (Log l # es) = state_changes es"
  by (simp_all add: state_changes_def)

lemma state_changes_stops: "state_changes (map SourceStop ss) = []"
  by (induction ss) (simp_all add: state_changes_simps)

lemma connectionState_quiet: "state_changes es = [] \<Longrightarrow> connectionState s es = s"
proof (induction s es rule: connectionState.induct)
  case (1 s)
  show ?case by simp
next
  case (2 s s' es)
  then show ?case by (simp add: state_changes_simps)
qed (simp_all add: state_changes_def)

lemma disconnect_eq:
  "disconnect env c =
     Returns (c\<lparr>ai := False, inputAudioContext := None, outputAudioContext := None,
               inputSource := None, processor := None, sources := [], currentSession := None,
               nextStartTime := (case outputAudioContext c of
                                   Some ctx \<Rightarrow> currentTime ctx | None \<Rightarrow> nextStartTime c),
               emitted := emitted c @ map SourceStop (sources c) @ [Volume 0] @ released c\<rparr>)"
  by (simp add: disconnect_def stopAllAudio_eq and_then_def emit_def Let_def released_def
      split: option.splits)

lemma state_changes_released: "state_changes (released c) = []"
  by (simp add: released_def state_changes_simps split: option.splits)

section \<open>C5: disconnect\<close>

text \<open>
  Claim C5, as the code has it. \<open>disconnect\<close> returns without an exception from every
  state. Afterwards no playback source is live, the capture graph is released, both
  audio contexts are closed and null, and the transport handle is null. It notifies no
  state change, so the session state stays what it was; the callers set it: the
  transport callbacks before they call \<open>disconnect\<close>, the toggle of the presentation
  layer after it, which leaves Disconnected. A second call in a row changes no field
  and only reports loudness 0 once more.
\<close>

theorem disconnect_teardown:
  "returns (disconnect env c) \<and>
   sources (final (disconnect env c)) = [] \<and>
   processor (final (disconnect env c)) = None \<and>
   inputSource (final (disconnect env c)) = None \<and>
   inputAudioContext (final (disconnect env c)) = None \<and>
   outputAudioContext (final (disconnect env c)) = None \<and>
   currentSession (final (disconnect env c)) = None \<and>
   emitted_since c (final (disconnect env c)) =
     map SourceStop (sources c) @ [Volume 0] @ released c \<and>
   state_changes (emitted_since c (final (disconnect env c))) = [] \<and>
   connectionState s (emitted (final (disconnect env c))) = connectionState s (emitted c) \<and>
   disconnect env (final (disconnect env c)) = Returns (emit (Volume 0) (final (disconnect env c))) \<and>
   connectionState s (emitted (final (toggleConnection env su now CONNECTED c))) = DISCONNECTED \<and>
   connectionState s (emitted (final (toggleConnection env su now CONNECTING c))) = DISCONNECTED"
proof -
  let ?c' = "final (disconnect env c)"
  let ?new = "map SourceStop (sources c) @ [Volume 0] @ released c"
  have em: "emitted ?c' = emitted c @ ?new"
    by (simp add: disconnect_eq)
  have since: "emitted_since c ?c' = ?new"
    by (simp add: emitted_since_def em)
  have quiet: "state_changes ?new = []"
    by (simp add: state_changes_simps state_changes_stops state_changes_released)
  have "connectionState s (emitted c @ ?new) = connectionState (connectionState s (emitted c)) ?new"
    by (rule connectionState_append)
  also have "\<dots> = connectionState s (emitted c)"
    by (rule connectionState_quiet [OF quiet])
  finally have st: "connectionState s (emitted ?c') = connectionState s (emitted c)"
    by (simp only: em)
  have again: "disconnect env ?c' = Returns (emit (Volume 0) ?c')"
    by (simp add: disconnect_eq [of env ?c'] released_def emit_def) (simp add: disconnect_eq)
  have tg: "toggleConnection env su now CONNECTED c = Returns (emit (StateChange DISCONNECTED) ?c')"
      "toggleConnection env su now CONNECTING c = Returns (emit (StateChange DISCONNECTED) ?c')"
    by (simp_all add: toggleConnection_def and_then_def disconnect_eq)
  have t1: "connectionState s (emitted (final (toggleConnection env su now CONNECTED c))) = DISCONNECTED"
    by (simp only: tg final.simps emit_fields connectionState_append connectionState.simps)
  have t2: "connectionState s (emitted (final (toggleConnection env su now CONNECTING c))) = DISCONNECTED"
    by (simp only: tg final.simps emit_fields connectionState_append connectionState.simps)
  have fields: "returns (disconnect env c)" "sources ?c' = []" "processor ?c' = None"
      "inputSource ?c' = None" "inputAudioContext ?c' = None" "outputAudioContext ?c' = None"
      "currentSession ?c' = None"
    by (simp_all add: disconnect_eq)
  have q: "state_changes (emitted_since c ?c') = []"
    by (simp only: since quiet)
  from fields since q st again t1 t2 show ?thesis by (intro conjI)
qed

text \<open>
  The claim as written fails for a Connected session: after \<open>disconnect\<close> the last state
  notified is still Connected.
\<close>

theorem disconnect_keeps_state_counterexample:
  "connectionState DISCONNECTED (emitted example_connected) = CONNECTED \<and>
   connectionState DISCONNECTED (emitted (final (disconnect example_env example_connected)))
     = CONNECTED"
proof -
  have "connectionState DISCONNECTED (emitted example_connected) = CONNECTED"
    by (simp add: example_connected_eq)
  moreover have "connectionState DISCONNECTED (emitted example_disconnected) = CONNECTED"
    by (simp add: example_disconnected_eq)
  ultimately show ?thesis by (simp only: example_disconnected_def simp_thms)
qed

section \<open>C6: connect\<close>

lemma connect_success:
  assumes "GoogleGenAI_throws su = None" and "inputContext_throws su = None"
    and "outputContext_throws su = None" and "getUserMedia su = Inr stream"
  shows "connect env su now c =
     Returns (c\<lparr>ai := True,
               inputAudioContext := Some \<lparr>sampleRate = 16000, currentTime = 0\<rparr>,
               outputAudioContext := Some \<lparr>sampleRate = 24000, currentTime = 0\<rparr>,
               currentSession := Some (live_connect su),
               emitted := emitted c @ [StateChange CONNECTING, GetUserMedia, LiveConnect]\<rparr>)"
  using assms by (simp add: connect_def connect_try_def try_catch_def emit_def Let_def)

lemma connect_first:
  "returns (connect env su now c) \<and>
   (\<exists>es. emitted (final (connect env su now c)) = emitted c @ StateChange CONNECTING # es)"
  by (simp add: connect_def connect_try_def try_catch_def emit_def Let_def disconnect_eq
      split: option.splits sum.splits)

lemma toggle_disconnects:
  assumes "st = CONNECTED \<or> st = CONNECTING"
  shows "emitted_since c (final (toggleConnection env su now st c)) =
           map SourceStop (sources c) @ [Volume 0] @ released c @ [StateChange DISCONNECTED]"
  using assms
  by (auto simp add: toggleConnection_def and_then_def disconnect_eq emit_def emitted_since_def)

lemma released_not_connecting:
  "StateChange CONNECTING \<notin> set (released c) \<and> GetUserMedia \<notin> set (released c) \<and>
   LiveConnect \<notin> set (released c)"
  by (simp add: released_def split: option.splits)

text \<open>
  Claim C6, as the code has it. \<open>connect\<close> reads no state: called in any state it
  returns without an exception and the first thing it does is notify Connecting; when
  the set-up succeeds it has requested the microphone and opened a transport, whose
  promise replaces the handle, and created two new audio contexts. What keeps
  \<open>connect\<close> from running while Connected or Connecting is the toggle of the
  presentation layer, which disconnects instead.
\<close>

theorem connect_has_no_guard:
  "returns (connect env su now c) \<and>
   (\<exists>es. emitted (final (connect env su now c)) = emitted c @ StateChange CONNECTING # es) \<and>
   (GoogleGenAI_throws su = None \<and> inputContext_throws su = None \<and>
    outputContext_throws su = None \<and> getUserMedia su = Inr stream \<longrightarrow>
      emitted_since c (final (connect env su now c)) =
        [StateChange CONNECTING, GetUserMedia, LiveConnect] \<and>
      currentSession (final (connect env su now c)) = Some (live_connect su) \<and>
      inputAudioContext (final (connect env su now c)) =
        Some \<lparr>sampleRate = 16000, currentTime = 0\<rparr> \<and>
      outputAudioContext (final (connect env su now c)) =
        Some \<lparr>sampleRate = 24000, currentTime = 0\<rparr>) \<and>
   (st = CONNECTED \<or> st = CONNECTING \<longrightarrow>
      StateChange CONNECTING \<notin> set (emitted_since c (final (toggleConnection env su now st c))) \<and>
      GetUserMedia \<notin> set (emitted_since c (final (toggleConnection env su now st c))) \<and>
      LiveConnect \<notin> set (emitted_since c (final (toggleConnection env su now st c))))"
proof -
  have ok: "GoogleGenAI_throws su = None \<and> inputContext_throws su = None \<and>
    outputContext_throws su = None \<and> getUserMedia su = Inr stream \<longrightarrow>
      emitted_since c (final (connect env su now c)) =
        [StateChange CONNECTING, GetUserMedia, LiveConnect] \<and>
      currentSession (final (connect env su now c)) = Some (live_connect su) \<and>
      inputAudioContext (final (connect env su now c)) =
        Some \<lparr>sampleRate = 16000, currentTime = 0\<rparr> \<and>
      outputAudioContext (final (connect env su now c)) =
        Some \<lparr>sampleRate = 24000, currentTime = 0\<rparr>"
  proof
    assume a: "GoogleGenAI_throws su = None \<and> inputContext_throws su = None \<and>
      outputContext_throws su = None \<and> getUserMedia su = Inr stream"
    then have "connect env su now c =
       Returns (c\<lparr>ai := True,
               inputAudioContext := Some \<lparr>sampleRate = 16000, currentTime = 0\<rparr>,
               outputAudioContext := Some \<lparr>sampleRate = 24000, currentTime = 0\<rparr>,
               currentSession := Some (live_connect su),
               emitted := emitted c @ [StateChange CONNECTING, GetUserMedia, LiveConnect]\<rparr>)"
      using connect_success [of su stream env now c] by blast
    then show "emitted_since c (final (connect env su now c)) =
        [StateChange CONNECTING, GetUserMedia, LiveConnect] \<and>
      currentSession (final (connect env su now c)) = Some (live_connect su) \<and>
      inputAudioContext (final (connect env su now c)) =
        Some \<lparr>sampleRate = 16000, currentTime = 0\<rparr> \<and>
      outputAudioContext (final (connect env su now c)) =
        Some \<lparr>sampleRate = 24000, currentTime = 0\<rparr>"
      by (simp add: emitted_since_def)
  qed
  have tg: "st = CONNECTED \<or> st = CONNECTING \<longrightarrow>
      StateChange CONNECTING \<notin> set (emitted_since c (final (toggleConnection env su now st c))) \<and>
      GetUserMedia \<notin> set (emitted_since c (final (toggleConnection env su now st c))) \<and>
      LiveConnect \<notin> set (emitted_since c (final (toggleConnection env su now st c)))"
  proof
    assume "st = CONNECTED \<or> st = CONNECTING"
    from toggle_disconnects [OF this, of c env su now]
    show "StateChange CONNECTING \<notin> set (emitted_since c (final (toggleConnection env su now st c))) \<and>
      GetUserMedia \<notin> set (emitted_since c (final (toggleConnection env su now st c))) \<and>
      LiveConnect \<notin> set (emitted_since c (final (toggleConnection env su now st c)))"
      using released_not_connecting [of c] by auto
  qed
  from connect_first [of env su now c] ok tg show ?thesis by blast
qed

theorem connect_has_no_guard_witness:
  "GoogleGenAI_throws example_setup = None \<and> inputContext_throws example_setup = None \<and>
   outputContext_throws example_setup = None \<and> getUserMedia example_setup = Inr 7 \<and>
   connectionState DISCONNECTED (emitted example_connected) = CONNECTED \<and>
   emitted_since example_connected
     (final (connect example_env example_setup 3000 example_connected)) =
       [StateChange CONNECTING, GetUserMedia, LiveConnect] \<and>
   currentSession (final (connect example_env example_setup 3000 example_connected)) =
     Some Fulfilled \<and>
   GetUserMedia \<notin> set (emitted_since example_connected
     (final (toggleConnection example_env example_setup 3000 CONNECTED example_connected)))"
proof -
  note T = connect_has_no_guard [of example_env example_setup 3000 example_connected 7 CONNECTED]
  have h: "GoogleGenAI_throws example_setup = None \<and> inputContext_throws example_setup = None \<and>
   outputContext_throws example_setup = None \<and> getUserMedia example_setup = Inr 7"
    by (simp add: example_setup_def)
  have s: "connectionState DISCONNECTED (emitted example_connected) = CONNECTED"
    by (simp add: example_connected_eq)
  note O = T [THEN conjunct2, THEN conjunct2, THEN conjunct1, rule_format, OF h]
  have l: "live_connect example_setup = Fulfilled" by (simp add: example_setup_def)
  have g: "GetUserMedia \<notin> set (emitted_since example_connected
     (final (toggleConnection example_env example_setup 3000 CONNECTED example_connected)))"
    using T [THEN conjunct2, THEN conjunct2, THEN conjunct2] by blast
  from h s O [THEN conjunct1] O [THEN conjunct2, THEN conjunct1] g
  show ?thesis unfolding l by (simp only: simp_thms)
qed

text \<open>
  The claim as written fails for a Connected session: a second \<open>connect\<close> notifies
  Connecting, requests the microphone and opens a transport.
\<close>

theorem connect_again_counterexample:
  "connectionState DISCONNECTED (emitted example_connected) = CONNECTED \<and>
   state_changes (emitted_since example_connected
     (final (connect example_env example_setup 3000 example_connected))) = [CONNECTING] \<and>
   GetUserMedia \<in> set (emitted_since example_connected
     (final (connect example_env example_setup 3000 example_connected))) \<and>
   LiveConnect \<in> set (emitted_since example_connected
     (final (connect example_env example_setup 3000 example_connected)))"
  by (simp add: example_connected_eq connect_def connect_try_def try_catch_def emit_def Let_def
      example_setup_def emitted_since_def state_changes_def)

section \<open>C7: sendText\<close>

lemma example_failed_eq:
  "example_failed =
     \<lparr>ai = False, inputAudioContext = None, outputAudioContext = None,
      inputSource = None, processor = None, nextStartTime = 0, sources = [],
      currentSession = None,
      emitted = [StateChange CONNECTING, GetUserMedia, ConsoleError ''Connection failed'',
                 StateChange ERROR, Log (log_entry 1000 Error ''Permission denied''), Volume 0,
                 ContextClose \<lparr>sampleRate = 16000, currentTime = 0\<rparr>,
                 ContextClose \<lparr>sampleRate = 24000, currentTime = 0\<rparr>],
      fresh_source = 0\<rparr>"
  by (simp add: example_failed_def connect_def connect_try_def try_catch_def denied_setup_def
      example_setup_def new_client_def or_default_def disconnect_def stopAllAudio_eq
      and_then_def emit_def Let_def)

lemma example_failed_session: "currentSession example_failed = None"
  by (simp add: example_failed_eq)

lemma sendText_cases:
  "currentSession c = None \<Longrightarrow> sendText env now text c = Returns c"
  "currentSession c = Some Fulfilled \<Longrightarrow> sendRealtimeInput_throws env (text_media env text) = None \<Longrightarrow>
     sendText env now text c =
       Returns (c\<lparr>emitted := emitted c @
          [Log (log_entry now User text), SendRealtimeInput (text_media env text)]\<rparr>)"
  "currentSession c = Some Fulfilled \<Longrightarrow> sendRealtimeInput_throws env (text_media env text) = Some m \<Longrightarrow>
     sendText env now text c =
       Returns (c\<lparr>emitted := emitted c @
          [Log (log_entry now User text), ConsoleError ''Failed to send text'',
           Log (log_entry now Error (''Failed to send text: '' @ m))]\<rparr>)"
  "currentSession c = Some (Rejected m) \<Longrightarrow>
     sendText env now text c =
       Returns (c\<lparr>emitted := emitted c @
          [ConsoleError ''Failed to send text'',
           Log (log_entry now Error (''Failed to send text: '' @ m))]\<rparr>)"
  by (simp_all add: sendText_def sendText_try_def try_catch_def emit_def Let_def)

lemma sendText_returns: "returns (sendText env now text c) \<and> extends c (final (sendText env now text c))"
proof (cases "currentSession c")
  case None
  then show ?thesis by (simp add: sendText_cases(1) extends_refl)
next
  case (Some p)
  show ?thesis
  proof (cases p)
    case Fulfilled
    show ?thesis
    proof (cases "sendRealtimeInput_throws env (text_media env text)")
      case None
      with Some Fulfilled show ?thesis by (simp add: sendText_cases(2) extends_def)
    next
      case (Some m)
      with \<open>currentSession c = Some p\<close> Fulfilled show ?thesis
        by (simp add: sendText_cases(3) extends_def)
    qed
  next
    case (Rejected m)
    with Some show ?thesis by (simp add: sendText_cases(4) extends_def)
  qed
qed

text \<open>
  Claim C7, as the code has it. \<open>sendText\<close> never raises and changes nothing but what
  it emits. With a transport handle that resolves, it appends a user entry carrying the
  text and then forwards the text, as \<open>text/plain\<close>, over the transport; when that send
  throws, an error entry follows the user entry. With a handle that rejects, it emits
  one error entry and no user entry. With no handle it does nothing at all.
\<close>

theorem sendText_paths:
  "returns (sendText env now text c) \<and>
   extends c (final (sendText env now text c)) \<and>
   (currentSession c = Some Fulfilled \<and> sendRealtimeInput_throws env (text_media env text) = None \<longrightarrow>
      emitted_since c (final (sendText env now text c)) =
        [Log (log_entry now User text), SendRealtimeInput (text_media env text)]) \<and>
   (currentSession c = Some Fulfilled \<and> sendRealtimeInput_throws env (text_media env text) = Some m \<longrightarrow>
      emitted_since c (final (sendText env now text c)) =
        [Log (log_entry now User text), ConsoleError ''Failed to send text'',
         Log (log_entry now Error (''Failed to send text: '' @ m))]) \<and>
   (currentSession c = Some (Rejected m) \<longrightarrow>
      emitted_since c (final (sendText env now text c)) =
        [ConsoleError ''Failed to send text'',
         Log (log_entry now Error (''Failed to send text: '' @ m))]) \<and>
   (currentSession c = None \<longrightarrow> sendText env now text c = Returns c)"
proof -
  have a: "currentSession c = Some Fulfilled \<and>
      sendRealtimeInput_throws env (text_media env text) = None \<longrightarrow>
      emitted_since c (final (sendText env now text c)) =
        [Log (log_entry now User text), SendRealtimeInput (text_media env text)]"
    by (simp add: sendText_cases(2) emitted_since_def)
  have b: "currentSession c = Some Fulfilled \<and>
      sendRealtimeInput_throws env (text_media env text) = Some m \<longrightarrow>
      emitted_since c (final (sendText env now text c)) =
        [Log (log_entry now User text), ConsoleError ''Failed to send text'',
         Log (log_entry now Error (''Failed to send text: '' @ m))]"
    by (simp add: sendText_cases(3) emitted_since_def)
  have d: "currentSession c = Some (Rejected m) \<longrightarrow>
      emitted_since c (final (sendText env now text c)) =
        [ConsoleError ''Failed to send text'',
         Log (log_entry now Error (''Failed to send text: '' @ m))]"
    by (simp add: sendText_cases(4) emitted_since_def)
  have e: "currentSession c = None \<longrightarrow> sendText env now text c = Returns c"
    by (simp add: sendText_cases(1))
  from sendText_returns [of env now "text" c] a b d e show ?thesis by blast
qed

theorem sendText_paths_witness:
  "currentSession example_connected = Some Fulfilled \<and>
   sendRealtimeInput_throws example_env (text_media example_env ''hello'') = None \<and>
   emitted_since example_connected (final (sendText example_env 2000 ''hello'' example_connected)) =
     [Log (log_entry 2000 User ''hello''), SendRealtimeInput (text_media example_env ''hello'')] \<and>
   currentSession (example_connected\<lparr>currentSession := Some (Rejected ''closed'')\<rparr>) =
     Some (Rejected ''closed'') \<and>
   emitted_since (example_connected\<lparr>currentSession := Some (Rejected ''closed'')\<rparr>)
     (final (sendText example_env 2000 ''hello''
        (example_connected\<lparr>currentSession := Some (Rejected ''closed'')\<rparr>))) =
     [ConsoleError ''Failed to send text'',
      Log (log_entry 2000 Error ''Failed to send text: closed'')] \<and>
   currentSession example_failed = None \<and>
   sendText example_env 2000 ''hello'' example_failed = Returns example_failed"
proof -
  let ?r = "example_connected\<lparr>currentSession := Some (Rejected ''closed'')\<rparr>"
  note T = sendText_paths [of example_env 2000 "''hello''" example_connected "''closed''"]
  note R = sendText_paths [of example_env 2000 "''hello''" "?r" "''closed''"]
  note F = sendText_paths [of example_env 2000 "''hello''" example_failed "''closed''"]
  have s: "currentSession example_connected = Some Fulfilled"
    by (simp add: example_connected_eq)
  have q: "sendRealtimeInput_throws example_env (text_media example_env ''hello'') = None"
    by (simp add: example_env_def)
  have j: "currentSession ?r = Some (Rejected ''closed'')" by simp
  note T3 = T [THEN conjunct2, THEN conjunct2, THEN conjunct1, rule_format, OF conjI [OF s q]]
  have R5: "emitted_since ?r (final (sendText example_env 2000 ''hello'' ?r)) =
     [ConsoleError ''Failed to send text'',
      Log (log_entry 2000 Error ''Failed to send text: closed'')]"
    using R [THEN conjunct2, THEN conjunct2, THEN conjunct2, THEN conjunct2, THEN conjunct1,
      rule_format, OF j] by simp
  note F6 = F [THEN conjunct2, THEN conjunct2, THEN conjunct2, THEN conjunct2, THEN conjunct2,
      rule_format, OF example_failed_session]
  from s q T3 j R5 example_failed_session F6 show ?thesis by (intro conjI)
qed

text \<open>
  The claim as written fails where there is no handle, as after a \<open>connect\<close> that the
  microphone refused: no user entry is appended. With a rejected handle the only entry
  is the error entry.
\<close>

theorem sendText_without_handle_counterexample:
  "log_entries (emitted_since example_failed
      (final (sendText example_env 2000 ''hello'' example_failed))) = [] \<and>
   log_entries (emitted_since (example_connected\<lparr>currentSession := Some (Rejected ''closed'')\<rparr>)
     (final (sendText example_env 2000 ''hello''
        (example_connected\<lparr>currentSession := Some (Rejected ''closed'')\<rparr>)))) =
     [log_entry 2000 Error ''Failed to send text: closed'']"
  by (simp add: sendText_def example_failed_session sendText_try_def try_catch_def emit_def
      emitted_since_def log_entries_def)

section \<open>What the message handler can emit\<close>

lemma adds_refl: "adds P c c"
  by (simp add: adds_def emitted_since_def)

lemma adds_emit: "P e \<Longrightarrow> adds P c (emit e c)"
  by (simp add: adds_def emitted_since_def emit_def)

lemma addsI: "emitted c' = emitted c @ es \<Longrightarrow> list_all P es \<Longrightarrow> adds P c c'"
  by (simp add: adds_def emitted_since_def)

lemma addsD:
  assumes "adds P c c'"
  shows "emitted c' = emitted c @ emitted_since c c'" and "list_all P (emitted_since c c')"
proof -
  have t: "take (length (emitted c)) (emitted c') = emitted c"
    using assms by (simp add: adds_def)
  have "emitted c' = take (length (emitted c)) (emitted c') @ drop (length (emitted c)) (emitted c')"
    by simp
  then show "emitted c' = emitted c @ emitted_since c c'"
    unfolding emitted_since_def by (simp only: t)
  show "list_all P (emitted_since c c')" using assms by (simp add: adds_def)
qed

lemma adds_trans:
  assumes "adds P c c'" and "adds P c' c''"
  shows "adds P c c''"
proof -
  have "emitted c'' = emitted c @ (emitted_since c c' @ emitted_since c' c'')"
    using addsD(1) [OF assms(1)] addsD(1) [OF assms(2)] by simp
  moreover have "list_all P (emitted_since c c' @ emitted_since c' c'')"
    using addsD(2) [OF assms(1)] addsD(2) [OF assms(2)] by simp
  ultimately show ?thesis by (rule addsI)
qed

lemma call_effects_all:
  assumes "\<And>a. P (ToolAction a)" and "\<And>u. P (WindowOpen u)" and "\<And>m. P (ThemeChange m)"
    and "\<And>fc. P (Log (tool_log now fc))"
  shows "list_all P (concat (map (call_effects env now) fcs))"
proof (induction fcs)
  case Nil
  show ?case by simp
next
  case (Cons fc fcs)
  have "list_all P (handler_effects env now fc)"
    by (rule handler_effects_all) (rule assms)+
  then show ?case using Cons.IH assms(4) by (simp add: call_effects_def)
qed

lemma toolCall_block_adds:
  assumes "\<And>a. P (ToolAction a)" and "\<And>u. P (WindowOpen u)" and "\<And>m. P (ThemeChange m)"
    and "\<And>r. P (SendToolResponse r)" and "\<And>fc. P (Log (tool_log now fc))"
  shows "adds P c (final (toolCall_block env now message c))"
proof (cases "toolCall message")
  case None
  then show ?thesis by (simp add: toolCall_block_def adds_refl)
next
  case (Some tc)
  show ?thesis
  proof (cases "functionCalls tc")
    case None
    then show ?thesis using Some by (simp add: toolCall_block_def handleToolCall_def adds_refl)
  next
    case fcs: (Some fcs)
    let ?sent = "delivered env (currentSession c) (map (response_to env now) fcs)"
    have w: "list_all P (concat (map (call_effects env now) fcs))"
      by (rule call_effects_all) (rule assms)+
    have "list_all P (map SendToolResponse ?sent)"
      by (simp add: list_all_iff assms(4))
    with w have "list_all P (concat (map (call_effects env now) fcs) @ map SendToolResponse ?sent)"
      by simp
    moreover have "emitted (final (toolCall_block env now message c)) =
        emitted c @ concat (map (call_effects env now) fcs) @ map SendToolResponse ?sent"
      using Some by (simp add: toolCall_block_def handleToolCall_eq [OF fcs])
    ultimately show ?thesis by (rule addsI [rotated])
  qed
qed

lemma playAudio_adds:
  assumes "\<And>s t. P (SourceStart s t)"
  shows "adds P c (playAudio buffer c)"
  by (simp add: playAudio_def adds_def emitted_since_def emit_def Let_def assms
      split: option.splits)

lemma audio_block_adds:
  assumes "\<And>s t. P (SourceStart s t)" and "P (Volume (1 / 2))" and "\<And>m. P (ConsoleError m)"
  shows "adds P c (final (audio_block env message c))"
proof -
  have v: "adds P c (emit (Volume (1 / 2)) c)" by (rule adds_emit) (rule assms(2))
  have p: "adds P c (playAudio b (emit (Volume (1 / 2)) c))" for b
  proof -
    have "adds P (emit (Volume (1 / 2)) c) (playAudio b (emit (Volume (1 / 2)) c))"
      by (rule playAudio_adds) (rule assms(1))
    with v show ?thesis by (rule adds_trans)
  qed
  have e: "adds P c (emit (ConsoleError ''Audio decode error'') (emit (Volume (1 / 2)) c))"
  proof -
    have "adds P (emit (Volume (1 / 2)) c)
            (emit (ConsoleError ''Audio decode error'') (emit (Volume (1 / 2)) c))"
      by (rule adds_emit) (rule assms(3))
    with v show ?thesis by (rule adds_trans)
  qed
  show ?thesis
    by (simp add: audio_block_def decode_try_def try_catch_def adds_refl p e
        split: option.splits sum.splits)
qed

lemma interrupted_block_adds:
  assumes "\<And>s. P (SourceStop s)" and "P (Volume 0)" and "P (Log (log_entry now System ''Interrupted.''))"
  shows "adds P c (final (interrupted_block env now message c))"
proof (cases "is_interrupted message")
  case True
  have "list_all P (map SourceStop (sources c))"
    by (simp add: list_all_iff assms(1))
  then show ?thesis
    using assms(2,3)
    by (simp add: interrupted_block_eq [OF True] adds_def emitted_since_def)
next
  case False
  then show ?thesis by (simp add: interrupted_block_def adds_refl)
qed

lemma turnComplete_block_adds:
  assumes "P (Volume 0)"
  shows "adds P c (final (turnComplete_block message c))"
proof -
  have "adds P c (emit (Volume 0) c)" by (rule adds_emit) (rule assms)
  then show ?thesis by (simp add: turnComplete_block_def adds_refl)
qed

lemma handleMessage_final:
  "handleMessage env now message c =
     Returns (final (toolCall_block env now message
       (final (turnComplete_block message
         (final (interrupted_block env now message
           (final (audio_block env message c))))))))"
proof -
  obtain c1 where a: "audio_block env message c = Returns c1"
    using audio_block_frame [of env message c] by blast
  obtain c2 where i: "interrupted_block env now message c1 = Returns c2"
    by (cases "is_interrupted message")
      (simp_all add: interrupted_block_eq, simp add: interrupted_block_def)
  obtain c3 where t: "turnComplete_block message c2 = Returns c3"
    using turnComplete_block_extends by blast
  obtain c4 where k: "toolCall_block env now message c3 = Returns c4"
    using toolCall_block_extends by blast
  show ?thesis by (simp add: handleMessage_def and_then_def a i t k)
qed

lemma handleMessage_adds:
  assumes "\<And>a. P (ToolAction a)" and "\<And>u. P (WindowOpen u)" and "\<And>m. P (ThemeChange m)"
    and "\<And>r. P (SendToolResponse r)" and "\<And>fc. P (Log (tool_log now fc))"
    and "\<And>s t. P (SourceStart s t)" and "P (Volume (1 / 2))" and "\<And>m. P (ConsoleError m)"
    and "\<And>s. P (SourceStop s)" and "P (Volume 0)"
    and "P (Log (log_entry now System ''Interrupted.''))"
  shows "adds P c (final (handleMessage env now message c))"
proof -
  let ?c1 = "final (audio_block env message c)"
  let ?c2 = "final (interrupted_block env now message ?c1)"
  let ?c3 = "final (turnComplete_block message ?c2)"
  let ?c4 = "final (toolCall_block env now message ?c3)"
  have "adds P c ?c1" by (rule audio_block_adds) (rule assms)+
  moreover have "adds P ?c1 ?c2" by (rule interrupted_block_adds) (rule assms)+
  moreover have "adds P ?c2 ?c3" by (rule turnComplete_block_adds) (rule assms)
  moreover have "adds P ?c3 ?c4" by (rule toolCall_block_adds) (rule assms)+
  ultimately have "adds P c ?c4" by (blast intro: adds_trans)
  then show ?thesis by (simp add: handleMessage_final)
qed

lemma handleMessage_quiet:
  "adds quiet c (final (handleMessage env now message c))"
  by (rule handleMessage_adds) (simp_all add: tool_log_def log_entry_def)

lemma handleMessage_fixed_volume:
  "adds fixed_volume c (final (handleMessage env now message c))"
  by (rule handleMessage_adds) simp_all

lemma quiet_logs:
  "list_all quiet es \<Longrightarrow>
     list_all (\<lambda>l. log_source l \<noteq> Error) (log_entries es) \<and> state_changes es = []"
proof (induction es)
  case Nil
  show ?case by (simp add: log_entries_def state_changes_def)
next
  case (Cons e es)
  then show ?case
    by (cases e) (simp_all add: log_entries_def state_changes_def)
qed

lemma fixed_volumes:
  "list_all fixed_volume es \<Longrightarrow> list_all (\<lambda>v. v = 1 / 2 \<or> v = 0) (volumes es)"
proof (induction es)
  case Nil
  show ?case by (simp add: volumes_def)
next
  case (Cons e es)
  then show ?case
    by (cases e) (simp_all add: volumes_def)
qed

section \<open>C8: decode failures\<close>

lemma audio_block_decode_fails:
  assumes "audio_payload message = Some d" and "d \<noteq> []"
    and "outputAudioContext c = Some ctx" and "decode_fails env d ctx"
  shows "audio_block env message c =
     Returns (c\<lparr>emitted := emitted c @ [Volume (1 / 2), ConsoleError ''Audio decode error'']\<rparr>)"
  using assms
  by (simp add: audio_block_def decode_try_def decode_fails_def try_catch_def emit_def
      split: sum.splits)

lemma handleMessage_returns: "returns (handleMessage env now message c)"
  by (simp add: handleMessage_final)

lemma handleMessage_extends:
  assumes "\<not> is_interrupted message" and "extends c (final (audio_block env message c))"
  shows "extends c (final (handleMessage env now message c))"
proof -
  let ?c1 = "final (audio_block env message c)"
  have i: "final (interrupted_block env now message ?c1) = ?c1"
    using assms(1) by (simp add: interrupted_block_def)
  obtain c3 where t: "turnComplete_block message ?c1 = Returns c3" and t_ex: "extends ?c1 c3"
    using turnComplete_block_extends by blast
  obtain c4 where k: "toolCall_block env now message c3 = Returns c4" and k_ex: "extends c3 c4"
    using toolCall_block_extends by blast
  have "final (handleMessage env now message c) = c4"
    by (simp add: handleMessage_final i t k)
  moreover have "extends c c4"
    using assms(2) t_ex k_ex by (blast intro: extends_trans)
  ultimately show ?thesis by simp
qed

text \<open>
  Claim C8, as the code has it. When the payload of a message fails to decode, the
  audio block reports loudness 0.5, writes one line to the console and is done: nothing
  is scheduled. The handler returns without an exception, emits no state change and no
  log entry of source \<open>error\<close>; unless the same message carries the interrupted flag,
  every field of the controller is as before. For a message that carries the payload
  only, the two effects above are all that is emitted.
\<close>

theorem decode_failure_is_contained:
  assumes "audio_payload message = Some d" and "d \<noteq> []"
    and "outputAudioContext c = Some ctx" and "decode_fails env d ctx"
  shows "audio_block env message c =
           Returns (c\<lparr>emitted := emitted c @
              [Volume (1 / 2), ConsoleError ''Audio decode error'']\<rparr>) \<and>
         returns (handleMessage env now message c) \<and>
         list_all (\<lambda>l. log_source l \<noteq> Error)
           (log_entries (emitted_since c (final (handleMessage env now message c)))) \<and>
         state_changes (emitted_since c (final (handleMessage env now message c))) = [] \<and>
         (\<not> is_interrupted message \<longrightarrow>
            extends c (final (handleMessage env now message c))) \<and>
         (\<not> is_interrupted message \<and> \<not> is_turnComplete message \<and> toolCall message = None \<longrightarrow>
            emitted_since c (final (handleMessage env now message c)) =
              [Volume (1 / 2), ConsoleError ''Audio decode error''])"
proof -
  let ?c1 = "c\<lparr>emitted := emitted c @ [Volume (1 / 2), ConsoleError ''Audio decode error'']\<rparr>"
  have a: "audio_block env message c = Returns ?c1"
    by (rule audio_block_decode_fails [OF assms])
  have ex1: "extends c (final (audio_block env message c))"
    by (simp add: a extends_def)
  have q: "list_all quiet (emitted_since c (final (handleMessage env now message c)))"
    using handleMessage_quiet [of c env now message] by (simp add: adds_def)
  note ql = quiet_logs [OF q]
  have x: "\<not> is_interrupted message \<longrightarrow> extends c (final (handleMessage env now message c))"
    using handleMessage_extends [OF _ ex1] by blast
  have only: "\<not> is_interrupted message \<and> \<not> is_turnComplete message \<and> toolCall message = None \<longrightarrow>
            emitted_since c (final (handleMessage env now message c)) =
              [Volume (1 / 2), ConsoleError ''Audio decode error'']"
    by (simp add: handleMessage_final a interrupted_block_def turnComplete_block_def
        toolCall_block_def emitted_since_def)
  from a handleMessage_returns [of env now message c] ql [THEN conjunct1] ql [THEN conjunct2] x only
  show ?thesis by (intro conjI)
qed

theorem decode_failure_is_contained_witness:
  "audio_payload bad_audio_message = Some ''%'' \<and>
   outputAudioContext example_connected = Some \<lparr>sampleRate = 24000, currentTime = 0\<rparr> \<and>
   decode_fails example_env ''%'' \<lparr>sampleRate = 24000, currentTime = 0\<rparr> \<and>
   returns (handleMessage example_env 2000 bad_audio_message example_connected) \<and>
   emitted_since example_connected
     (final (handleMessage example_env 2000 bad_audio_message example_connected)) =
       [Volume (1 / 2), ConsoleError ''Audio decode error''] \<and>
   sources (final (handleMessage example_env 2000 bad_audio_message example_connected)) = [] \<and>
   currentSession (final (handleMessage example_env 2000 bad_audio_message example_connected)) =
     Some Fulfilled"
proof -
  let ?ctx = "\<lparr>sampleRate = 24000, currentTime = 0\<rparr>"
  have h1: "audio_payload bad_audio_message = Some ''%''"
    by (simp add: audio_payload_def bad_audio_message_def)
  have h2: "''%'' \<noteq> []" by simp
  have h3: "outputAudioContext example_connected = Some ?ctx"
    by (simp add: example_connected_eq)
  have h4: "decode_fails example_env ''%'' ?ctx"
    by (simp add: decode_fails_def example_env_def)
  note T = decode_failure_is_contained [OF h1 h2 h3 h4, of 2000]
  have n: "\<not> is_interrupted bad_audio_message"
    by (simp add: is_interrupted_def bad_audio_message_def)
  have m: "\<not> is_interrupted bad_audio_message \<and> \<not> is_turnComplete bad_audio_message \<and>
      toolCall bad_audio_message = None"
    by (simp add: is_interrupted_def is_turnComplete_def bad_audio_message_def)
  note X = T [THEN conjunct2, THEN conjunct2, THEN conjunct2, THEN conjunct2, THEN conjunct1,
      rule_format, OF n]
  note O = T [THEN conjunct2, THEN conjunct2, THEN conjunct2, THEN conjunct2, THEN conjunct2,
      rule_format, OF m]
  have s: "sources (final (handleMessage example_env 2000 bad_audio_message example_connected)) = []"
    using extends_fields(1) [OF X] by (simp add: example_connected_eq)
  have p: "currentSession (final (handleMessage example_env 2000 bad_audio_message example_connected))
      = Some Fulfilled"
    using extends_fields(5) [OF X] by (simp add: example_connected_eq)
  from h1 h3 h4 T [THEN conjunct2, THEN conjunct1] O s p show ?thesis by (intro conjI)
qed

text \<open>
  The claim as written fails: a decode failure is written to the console and no log
  entry is emitted.
\<close>

theorem decode_failure_not_logged_counterexample:
  "decode_fails example_env ''%'' \<lparr>sampleRate = 24000, currentTime = 0\<rparr> \<and>
   log_entries (emitted_since example_connected
     (final (handleMessage example_env 2000 bad_audio_message example_connected))) = [] \<and>
   ConsoleError ''Audio decode error'' \<in> set (emitted_since example_connected
     (final (handleMessage example_env 2000 bad_audio_message example_connected)))"
  by (simp add: decode_fails_def example_env_def handleMessage_final audio_block_def
      audio_payload_def bad_audio_message_def example_connected_eq decode_try_def try_catch_def
      interrupted_block_def is_interrupted_def turnComplete_block_def is_turnComplete_def
      toolCall_block_def emit_def emitted_since_def log_entries_def)

section \<open>C10: inbound loudness\<close>

lemma audio_block_starts_with_volume:
  assumes "audio_payload message = Some d" and "d \<noteq> []" and "outputAudioContext c = Some ctx"
  shows "adds (\<lambda>e. True) (emit (Volume (1 / 2)) c) (final (audio_block env message c))"
proof -
  let ?c0 = "emit (Volume (1 / 2)) c"
  have p: "adds (\<lambda>e. True) ?c0 (playAudio b ?c0)" for b
    by (rule playAudio_adds) simp
  have e: "adds (\<lambda>e. True) ?c0 (emit (ConsoleError ''Audio decode error'') ?c0)"
    by (rule adds_emit) simp
  show ?thesis
    using assms
    by (simp add: audio_block_def decode_try_def try_catch_def p e split: sum.splits)
qed

lemma after_audio_block:
  "adds (\<lambda>e. True) (final (audio_block env message c)) (final (handleMessage env now message c))"
proof -
  let ?c1 = "final (audio_block env message c)"
  let ?c2 = "final (interrupted_block env now message ?c1)"
  let ?c3 = "final (turnComplete_block message ?c2)"
  let ?c4 = "final (toolCall_block env now message ?c3)"
  have "adds (\<lambda>e. True) ?c1 ?c2" by (rule interrupted_block_adds) simp_all
  moreover have "adds (\<lambda>e. True) ?c2 ?c3" by (rule turnComplete_block_adds) simp
  moreover have "adds (\<lambda>e. True) ?c3 ?c4" by (rule toolCall_block_adds) simp_all
  ultimately have "adds (\<lambda>e. True) ?c1 ?c4" by (blast intro: adds_trans)
  then show ?thesis by (simp add: handleMessage_final)
qed

text \<open>
  Claim C10, as the code has it. For a message with a non-empty audio payload, handled
  while there is an output context, the first thing the handler does is report loudness
  0.5, before decoding and whatever the decoders return. The handler reports no
  loudness other than 0.5 and 0. Without an output context the audio block does
  nothing.
\<close>

theorem inbound_loudness_is_constant:
  "(audio_payload message = Some d \<and> d \<noteq> [] \<and> outputAudioContext c = Some ctx \<longrightarrow>
      (\<exists>es. emitted_since c (final (handleMessage env now message c)) = Volume (1 / 2) # es)) \<and>
   list_all (\<lambda>v. v = 1 / 2 \<or> v = 0)
     (volumes (emitted_since c (final (handleMessage env now message c)))) \<and>
   (outputAudioContext c = None \<longrightarrow> audio_block env message c = Returns c)"
proof -
  have first: "audio_payload message = Some d \<and> d \<noteq> [] \<and> outputAudioContext c = Some ctx \<longrightarrow>
      (\<exists>es. emitted_since c (final (handleMessage env now message c)) = Volume (1 / 2) # es)"
  proof
    assume a: "audio_payload message = Some d \<and> d \<noteq> [] \<and> outputAudioContext c = Some ctx"
    let ?c0 = "emit (Volume (1 / 2)) c"
    let ?c' = "final (handleMessage env now message c)"
    have "adds (\<lambda>e. True) ?c0 (final (audio_block env message c))"
      using a audio_block_starts_with_volume [of message d c ctx env] by blast
    then have "adds (\<lambda>e. True) ?c0 ?c'"
      using after_audio_block [of env message c now] by (rule adds_trans)
    from addsD(1) [OF this]
    have "emitted ?c' = emitted c @ Volume (1 / 2) # emitted_since ?c0 ?c'"
      by (simp add: emit_fields)
    then have "emitted_since c ?c' = Volume (1 / 2) # emitted_since ?c0 ?c'"
      by (rule emitted_since_append)
    then show "\<exists>es. emitted_since c ?c' = Volume (1 / 2) # es" by blast
  qed
  have "list_all fixed_volume (emitted_since c (final (handleMessage env now message c)))"
    using handleMessage_fixed_volume [of c env now message] by (simp add: adds_def)
  from fixed_volumes [OF this]
  have vols: "list_all (\<lambda>v. v = 1 / 2 \<or> v = 0)
     (volumes (emitted_since c (final (handleMessage env now message c))))" .
  have none: "outputAudioContext c = None \<longrightarrow> audio_block env message c = Returns c"
    by (simp add: audio_block_def split: option.splits)
  from first vols none show ?thesis by (intro conjI)
qed

theorem inbound_loudness_is_constant_witness:
  "audio_payload audio_message = Some ''AAAA'' \<and>
   outputAudioContext example_connected = Some \<lparr>sampleRate = 24000, currentTime = 0\<rparr> \<and>
   hd (emitted_since example_connected
      (final (handleMessage example_env 2000 audio_message example_connected))) = Volume (1 / 2) \<and>
   outputAudioContext example_disconnected = None \<and>
   audio_block example_env audio_message example_disconnected = Returns example_disconnected"
proof -
  let ?ctx = "\<lparr>sampleRate = 24000, currentTime = 0\<rparr>"
  note T = inbound_loudness_is_constant
    [of audio_message "''AAAA''" example_connected ?ctx example_env 2000]
  note D = inbound_loudness_is_constant
    [of audio_message "''AAAA''" example_disconnected ?ctx example_env 2000]
  have h1: "audio_payload audio_message = Some ''AAAA''"
    by (simp add: audio_payload_def audio_message_def)
  have h3: "outputAudioContext example_connected = Some ?ctx"
    by (simp add: example_connected_eq)
  have h: "audio_payload audio_message = Some ''AAAA'' \<and> ''AAAA'' \<noteq> [] \<and>
      outputAudioContext example_connected = Some ?ctx"
    using h1 h3 by simp
  from T [THEN conjunct1, rule_format, OF h]
  obtain es where "emitted_since example_connected
      (final (handleMessage example_env 2000 audio_message example_connected)) = Volume (1 / 2) # es"
    by blast
  then have v: "hd (emitted_since example_connected
      (final (handleMessage example_env 2000 audio_message example_connected))) = Volume (1 / 2)"
    by simp
  have n: "outputAudioContext example_disconnected = None"
    by (simp add: example_disconnected_eq)
  note D3 = D [THEN conjunct2, THEN conjunct2, rule_format, OF n]
  from h1 h3 v n D3 show ?thesis by (intro conjI)
qed

text \<open>
  The claim as written fails after \<open>disconnect\<close>: the output context is null, and a
  message with an audio payload reports no loudness.
\<close>

theorem no_loudness_without_output_context_counterexample:
  "audio_payload audio_message = Some ''AAAA'' \<and>
   emitted_since example_disconnected
     (final (handleMessage example_env 2000 audio_message example_disconnected)) = []"
  by (simp add: handleMessage_final audio_block_def audio_payload_def audio_message_def
      example_disconnected_eq interrupted_block_def is_interrupted_def turnComplete_block_def
      is_turnComplete_def toolCall_block_def emitted_since_def)

section \<open>C9: log entry ids\<close>

text \<open>
  Claim C9 fails on the code. The id of an entry is the decimal millisecond clock, so
  two entries made at the same clock reading share it: a transport error followed by
  the close of the transport, both at 5000 ms, give two distinct entries with the id
  \<open>5000\<close>.
\<close>

theorem log_ids_collide:
  "map log_id (log_entries (emitted_since example_connected
      (final (onclose example_env 5000
         (final (onerror example_env 5000 ''socket hang up'' example_connected)))))) =
     [''5000'', ''5000''] \<and>
   map log_message (log_entries (emitted_since example_connected
      (final (onclose example_env 5000
         (final (onerror example_env 5000 ''socket hang up'' example_connected)))))) =
     [''socket hang up'', ''Connection closed.'']"
  by (simp add: onerror_def onclose_def disconnect_eq emit_def log_entries_def log_entry_def
      toString.simps or_default_def emitted_since_def example_connected_eq released_def)

end
